theory Spec2Isabelle
  imports Complex_Main
begin

section \<open>Strings, exceptions and library calls\<close>

text \<open>
  A Python \<open>str\<close> is a sequence of Unicode code points, so it is a list of naturals:
  slicing and \<open>len\<close> count code points, and the Cyrillic constants of the source are
  written by their code points. \<open>u\<close> embeds an ASCII literal.
\<close>

type_synonym ustr = "nat list"

definition u :: "string \<Rightarrow> ustr" where
  "u s = map of_char s"

text \<open>\<open>sub in s\<close> on strings.\<close>

fun contains :: "ustr \<Rightarrow> ustr \<Rightarrow> bool" where
  "contains sub [] = (sub = [])"
| "contains sub (c # cs) = (take (length sub) (c # cs) = sub \<or> contains sub cs)"

text \<open>\<open>str.isspace\<close> of one code point, and \<open>str.strip()\<close>.\<close>

definition is_space :: "nat \<Rightarrow> bool" where
  "is_space c = (c \<in> {9, 10, 11, 12, 13, 28, 29, 30, 31, 32, 133, 160, 5760, 8232, 8233,
                       8239, 8287, 12288} \<or> (8192 \<le> c \<and> c \<le> 8202))"

definition strip :: "ustr \<Rightarrow> ustr" where
  "strip s = rev (dropWhile is_space (rev (dropWhile is_space s)))"

text \<open>\<open>s.replace(old, new)\<close> for a one-character \<open>old\<close>.\<close>

definition replace_char :: "nat \<Rightarrow> ustr \<Rightarrow> ustr \<Rightarrow> ustr" where
  "replace_char old new s = concat (map (\<lambda>c. if c = old then new else [c]) s)"

text \<open>\<open>str(n)\<close> of a non-negative integer.\<close>

fun str_nat :: "nat \<Rightarrow> ustr" where
  "str_nat n = (if n < 10 then [48 + n] else str_nat (n div 10) @ [48 + n mod 10])"

datatype exn =
    ClientConnectionError
  | ClientResponseError
  | UnicodeDecodeError
  | ValueError
  | KeyError
  | IndexError
  | AttributeError
  | IntCastingNaNError
  | IntegrityError

text \<open>
  \<open>datetime.datetime\<close>: the calendar date, the time of day in microseconds and the
  offset of an attached time zone. The constructor \<open>datetime(year, month, day)\<close> raises
  ValueError outside the calendar.
\<close>

record timestamp =
  year :: int
  month :: int
  day :: int
  clock :: nat
  tzinfo :: "int option"

definition is_leap :: "int \<Rightarrow> bool" where
  "is_leap y = (y mod 4 = 0 \<and> (y mod 100 \<noteq> 0 \<or> y mod 400 = 0))"

definition days_in_month :: "int \<Rightarrow> int \<Rightarrow> int" where
  "days_in_month y m =
     (if m = 2 then (if is_leap y then 29 else 28)
      else if m = 4 \<or> m = 6 \<or> m = 9 \<or> m = 11 then 30 else 31)"

definition datetime :: "int \<Rightarrow> int \<Rightarrow> int \<Rightarrow> exn + timestamp" where
  "datetime y m d =
     (if 1 \<le> y \<and> y \<le> 9999 \<and> 1 \<le> m \<and> m \<le> 12 \<and> 1 \<le> d \<and> d \<le> days_in_month y m
      then Inr \<lparr>year = y, month = m, day = d, clock = 0, tzinfo = None\<rparr>
      else Inl ValueError)"

text \<open>
  Floating-point values as pandas holds them: a finite number, an infinity, or NaN
  (the missing marker).
\<close>

datatype num = Fin real | PInf | NInf | NaN

datatype cell = Str ustr | Num num | IntC int | Time timestamp

text \<open>An anchor of a parsed listing page: \<open>link['href']\<close>, \<open>link.text\<close> and the text of
  \<open>link.find_next("span")\<close> (None when no span follows).\<close>

record anchor =
  href :: ustr
  link_text :: ustr
  next_span :: "ustr option"

text \<open>A sheet as \<open>pd.read_excel(..., header=None)\<close> returns it: a grid of cells.\<close>

record sheet =
  nrows :: nat
  ncols :: nat
  cell_at :: "nat \<Rightarrow> nat \<Rightarrow> cell"

text \<open>
  The calls into libraries whose code is not part of the repository are parameters of
  the model:
  \<^item> \<open>digit\<close>: the value of a code point that the pattern \<open>\d\<close> matches (and \<open>int\<close> reads);
  \<^item> \<open>decode\<close>: \<open>resp.text()\<close> on the bytes of a response;
  \<^item> \<open>find_anchors\<close>: \<open>BeautifulSoup(html, 'html.parser').find_all("a", href=True)\<close>;
  \<^item> \<open>read_excel\<close>: \<open>pd.read_excel(path, sheet_name=None, engine="xlrd", header=None)\<close>,
    None when it raises;
  \<^item> \<open>py_str\<close>: \<open>str(x)\<close> of a cell that is not a string;
  \<^item> \<open>series_str\<close>: what \<open>Series.astype(str)\<close> makes of a cell that is not a string: its
    text, or None where the cell is left missing (pandas from version 3 leaves a missing
    cell missing, older versions print it);
  \<^item> \<open>to_numeric\<close>: \<open>pd.to_numeric(errors='coerce')\<close> on one cell, NaN when it fails;
  \<^item> \<open>cast_overflow\<close>: what a cast to int64 makes of a float outside the int64 range.
\<close>

record pylib =
  digit :: "nat \<Rightarrow> nat option"
  decode :: "nat list \<Rightarrow> exn + ustr"
  find_anchors :: "ustr \<Rightarrow> anchor list"
  read_excel :: "nat list \<Rightarrow> sheet list option"
  py_str :: "cell \<Rightarrow> ustr"
  series_str :: "cell \<Rightarrow> ustr option"
  to_numeric :: "cell \<Rightarrow> num"
  cast_overflow :: "real \<Rightarrow> int"

section \<open>Fetcher\<close>

record response =
  status :: nat
  body :: "nat list"

text \<open>\<open>session.get(url)\<close>: the network answers with a response or the request fails.\<close>

type_synonym client = "ustr \<Rightarrow> exn + response"

definition raise_for_status :: "response \<Rightarrow> exn + unit" where
  "raise_for_status resp = (if 400 \<le> status resp then Inl ClientResponseError else Inr ())"

definition fetch_html :: "pylib \<Rightarrow> client \<Rightarrow> ustr \<Rightarrow> exn + ustr" where
  "fetch_html lib session url =
     (case session url of
        Inl e \<Rightarrow> Inl e
      | Inr resp \<Rightarrow>
          (case raise_for_status resp of
             Inl e \<Rightarrow> Inl e
           | Inr _ \<Rightarrow> decode lib (body resp)))"

section \<open>Bulletin Locator\<close>

definition BASE_URL :: ustr where
  "BASE_URL = u ''https://spimex.com''"

definition RESULTS_URL :: ustr where
  "RESULTS_URL = u ''https://spimex.com/markets/oil_products/trades/results/''"

definition START_YEAR :: int where
  "START_YEAR = 2023"

definition LIMIT_FILES :: nat where
  "LIMIT_FILES = 20"

text \<open>The bulletin title that a link's text has to contain (51 code points, Cyrillic).\<close>

definition BULLETIN_TITLE :: ustr where
  "BULLETIN_TITLE =
     [1041, 1102, 1083, 1083, 1077, 1090, 1077, 1085, 1100, 32, 1087, 1086, 32, 1080, 1090,
      1086, 1075, 1072, 1084, 32, 1090, 1086, 1088, 1075, 1086, 1074, 32, 1074, 32, 1057,
      1077, 1082, 1094, 1080, 1080, 32, 171, 1053, 1077, 1092, 1090, 1077, 1087, 1088, 1086,
      1076, 1091, 1082, 1090, 1099, 187]"

text \<open>
  \<open>re.search(r"(\d{2})\.(\d{2})\.(\d{4})", s)\<close>: the leftmost position where the
  pattern matches, with its three groups.
\<close>

definition is_digit :: "pylib \<Rightarrow> nat \<Rightarrow> bool" where
  "is_digit lib c = (digit lib c \<noteq> None)"

definition match_date :: "pylib \<Rightarrow> ustr \<Rightarrow> (ustr \<times> ustr \<times> ustr) option" where
  "match_date lib s =
     (if 10 \<le> length s \<and> list_all (is_digit lib) (take 2 s) \<and> s ! 2 = 46
         \<and> list_all (is_digit lib) (take 2 (drop 3 s)) \<and> s ! 5 = 46
         \<and> list_all (is_digit lib) (take 4 (drop 6 s))
      then Some (take 2 s, take 2 (drop 3 s), take 4 (drop 6 s))
      else None)"

fun re_search_date :: "pylib \<Rightarrow> ustr \<Rightarrow> (ustr \<times> ustr \<times> ustr) option" where
  "re_search_date lib [] = None"
| "re_search_date lib (c # cs) =
     (case match_date lib (c # cs) of
        Some g \<Rightarrow> Some g
      | None \<Rightarrow> re_search_date lib cs)"

text \<open>\<open>int(s)\<close> on a group of the pattern, which holds digits only.\<close>

definition py_int :: "pylib \<Rightarrow> ustr \<Rightarrow> int" where
  "py_int lib s = int (foldl (\<lambda>a c. 10 * a + (case digit lib c of Some v \<Rightarrow> v | None \<Rightarrow> 0)) 0 s)"

type_synonym entry = "ustr \<times> timestamp"

text \<open>
  The \<open>for link in soup.find_all(...)\<close> loop of one page. It ends by the \<open>return data\<close>
  at the year cutoff (\<open>Returned\<close>), or by running out of links or the \<open>break\<close> at the
  limit (\<open>Scanned\<close>, with \<open>found_new\<close>); an exception of the \<open>datetime\<close> constructor
  is not caught.
\<close>

datatype scan_result = Returned "entry list" | Scanned "entry list" bool

fun scan_links :: "pylib \<Rightarrow> anchor list \<Rightarrow> entry list \<Rightarrow> bool \<Rightarrow> exn + scan_result" where
  "scan_links lib [] data found_new = Inr (Scanned data found_new)"
| "scan_links lib (link # links) data found_new =
     (if contains BULLETIN_TITLE (link_text link) then
        (case next_span link of
           None \<Rightarrow> scan_links lib links data found_new
         | Some date_span \<Rightarrow>
             if strip date_span = [] then scan_links lib links data found_new
             else
               (case re_search_date lib (strip date_span) of
                  None \<Rightarrow> scan_links lib links data found_new
                | Some (d, m, y) \<Rightarrow>
                    (case datetime (py_int lib y) (py_int lib m) (py_int lib d) of
                       Inl e \<Rightarrow> Inl e
                     | Inr trade_date \<Rightarrow>
                         if year trade_date < START_YEAR then Inr (Returned data)
                         else
                           let data' = data @ [(BASE_URL @ href link, trade_date)] in
                           if LIMIT_FILES \<le> length data' then Inr (Scanned data' True)
                           else scan_links lib links data' True)))
      else scan_links lib links data found_new)"

definition page_url :: "nat \<Rightarrow> ustr" where
  "page_url page_number =
     (if 1 < page_number then RESULTS_URL @ u ''?page=page-'' @ str_nat page_number
      else RESULTS_URL)"

lemma scan_links_grows:
  "scan_links lib links data found_new = Inr (Scanned data' found) \<Longrightarrow>
     length data \<le> length data' \<and> (found \<longrightarrow> found_new \<or> length data < length data')"
proof (induction links arbitrary: data found_new)
  case Nil
  then show ?case by simp
next
  case (Cons link links)
  show ?case
  proof (cases "contains BULLETIN_TITLE (link_text link)")
    case False
    with Cons show ?thesis by simp
  next
    case title: True
    show ?thesis
    proof (cases "next_span link")
      case None
      with Cons title show ?thesis by simp
    next
      case (Some date_span)
      show ?thesis
      proof (cases "strip date_span = []")
        case True
        with Cons title Some show ?thesis by simp
      next
        case nonempty: False
        show ?thesis
        proof (cases "re_search_date lib (strip date_span)")
          case None
          with Cons title Some nonempty show ?thesis by simp
        next
          case (Some g)
          obtain d m y where g: "g = (d, m, y)" by (cases g) auto
          show ?thesis
          proof (cases "datetime (py_int lib y) (py_int lib m) (py_int lib d)")
            case (Inl e)
            with Cons.prems title \<open>next_span link = Some date_span\<close> nonempty Some g
            show ?thesis by simp
          next
            case (Inr trade_date)
            let ?data = "data @ [(BASE_URL @ href link, trade_date)]"
            from Cons.prems title \<open>next_span link = Some date_span\<close> nonempty Some g Inr
            have alt: "\<not> year trade_date < START_YEAR
              \<and> (if LIMIT_FILES \<le> length ?data then Scanned ?data True = Scanned data' found
                 else scan_links lib links ?data True = Inr (Scanned data' found))"
              by (simp add: Let_def split: if_splits)
            show ?thesis
            proof (cases "LIMIT_FILES \<le> length ?data")
              case True
              with alt show ?thesis by auto
            next
              case False
              with alt have "scan_links lib links ?data True = Inr (Scanned data' found)"
                by simp
              from Cons.IH [OF this] show ?thesis by auto
            qed
          qed
        qed
      qed
    qed
  qed
qed

text \<open>The \<open>while len(data) < LIMIT_FILES\<close> loop over the listing pages.\<close>

function pages_loop :: "pylib \<Rightarrow> client \<Rightarrow> nat \<Rightarrow> entry list \<Rightarrow> exn + entry list" where
  "pages_loop lib session page_number data =
     (if length data < LIMIT_FILES then
        (case fetch_html lib session (page_url page_number) of
           Inl e \<Rightarrow> Inl e
         | Inr html \<Rightarrow>
             (case scan_links lib (find_anchors lib html) data False of
                Inl e \<Rightarrow> Inl e
              | Inr (Returned data') \<Rightarrow> Inr data'
              | Inr (Scanned data' found_new) \<Rightarrow>
                  if \<not> found_new then Inr data'
                  else pages_loop lib session (page_number + 1) data'))
      else Inr data)"
  by pat_completeness auto
termination
proof (relation "measure (\<lambda>(lib, session, page_number, data). LIMIT_FILES - length data)")
  show "wf (measure (\<lambda>(lib, session, page_number, data). LIMIT_FILES - length data))"
    by simp
next
  fix lib :: pylib and session :: client and page_number :: nat and data :: "entry list"
    and html res data' found_new
  assume lt: "length data < LIMIT_FILES"
    and "scan_links lib (find_anchors lib html) data False = Inr res"
    and "res = Scanned data' found_new" and "\<not> \<not> found_new"
  then have "length data < length data'"
    using scan_links_grows [of lib "find_anchors lib html" data False data' found_new] by simp
  with lt show "((lib, session, page_number + 1, data'), (lib, session, page_number, data))
      \<in> measure (\<lambda>(lib, session, page_number, data). LIMIT_FILES - length data)"
    by simp
qed

definition get_bulletin_urls :: "pylib \<Rightarrow> client \<Rightarrow> exn + entry list" where
  "get_bulletin_urls lib session = pages_loop lib session 1 []"

section \<open>Spreadsheet Extractor\<close>

text \<open>
  A table as pandas holds it: the rows that are left, each named by its position in the
  grid the table was cut from, and the labelled columns in their order. A column is a
  series, read at a row. Several columns may carry the same label.
\<close>

type_synonym series = "nat \<Rightarrow> cell"

record frame =
  index :: "nat list"
  cols :: "(ustr \<times> series) list"

definition columns :: "frame \<Rightarrow> ustr list" where
  "columns df = map fst (cols df)"

text \<open>The marker phrase that precedes the table of a bulletin (36 code points, Cyrillic).\<close>

definition MARKER :: ustr where
  "MARKER =
     [1045, 1076, 1080, 1085, 1080, 1094, 1072, 32, 1080, 1079, 1084, 1077, 1088, 1077, 1085,
      1080, 1103, 58, 32, 1052, 1077, 1090, 1088, 1080, 1095, 1077, 1089, 1082, 1072, 1103,
      32, 1090, 1086, 1085, 1085, 1072]"

text \<open>\<open>columns.astype(str)\<close> on one header cell: a string stays, anything else is printed.\<close>

definition header_str :: "pylib \<Rightarrow> cell \<Rightarrow> ustr" where
  "header_str lib c = (case c of Str s \<Rightarrow> s | _ \<Rightarrow> py_str lib c)"

text \<open>\<open>any(isinstance(cell, str) and MARKER in cell for cell in row)\<close> for row \<open>i\<close>.\<close>

definition row_has_marker :: "sheet \<Rightarrow> nat \<Rightarrow> bool" where
  "row_has_marker data i =
     list_ex (\<lambda>j. case cell_at data i j of Str s \<Rightarrow> contains MARKER s | _ \<Rightarrow> False) [0..<ncols data]"

text \<open>
  The table below marker row \<open>i\<close>: row \<open>i + 1\<close> gives the column names (printed,
  newlines turned into spaces, stripped), the rows from \<open>i + 2\<close> on are the body.
  \<open>df_clean.iloc[0]\<close> raises IndexError when no row follows the marker.
\<close>

definition table_below :: "pylib \<Rightarrow> sheet \<Rightarrow> nat \<Rightarrow> exn + frame" where
  "table_below lib data i =
     (if nrows data \<le> i + 1 then Inl IndexError
      else Inr \<lparr>index = [0..<nrows data - (i + 2)],
                cols = map (\<lambda>j. (strip (replace_char 10 [32] (header_str lib (cell_at data (i + 1) j))),
                                  \<lambda>r. cell_at data (r + (i + 2)) j))
                         [0..<ncols data]\<rparr>)"

text \<open>The loop over the sheets: the first marker row of the first sheet that has one.\<close>

fun scan_sheets :: "pylib \<Rightarrow> sheet list \<Rightarrow> exn + frame option" where
  "scan_sheets lib [] = Inr None"
| "scan_sheets lib (data # rest) =
     (case find (row_has_marker data) [0..<nrows data] of
        None \<Rightarrow> scan_sheets lib rest
      | Some i \<Rightarrow>
          (case table_below lib data i of
             Inl e \<Rightarrow> Inl e
           | Inr df_clean \<Rightarrow> Inr (Some df_clean)))"

text \<open>
  \<open>download_and_parse\<close> reads the body of whatever response it gets (it does not call
  \<open>raise_for_status\<close>); the bare \<open>except\<close> turns a failure of \<open>read_excel\<close> into None.
\<close>

definition download_and_parse :: "pylib \<Rightarrow> client \<Rightarrow> ustr \<Rightarrow> exn + frame option" where
  "download_and_parse lib session url =
     (case session url of
        Inl e \<Rightarrow> Inl e
      | Inr resp \<Rightarrow>
          (case read_excel lib (body resp) of
             None \<Rightarrow> Inr None
           | Some df_dict \<Rightarrow> scan_sheets lib df_dict))"

section \<open>Persister\<close>

text \<open>
  The session is SQLAlchemy's. Its three operations are parameters over a session state:
  \<open>add\<close> stages a record and tells whether it raised IntegrityError, \<open>rollback\<close> and
  \<open>commit\<close> change the state, and \<open>commit\<close> may raise. \<open>save_to_db\<close> is modelled with the
  log of the calls it makes, each \<open>Add\<close> with its outcome.
\<close>

record ('s, 'r) orm =
  add :: "'s \<Rightarrow> 'r \<Rightarrow> bool \<times> 's"
  rollback :: "'s \<Rightarrow> 's"
  commit :: "'s \<Rightarrow> exn option \<times> 's"

datatype 'r call = Add 'r bool | Rollback | Commit

fun stage_rows :: "('s, 'r) orm \<Rightarrow> 'r list \<Rightarrow> 's \<Rightarrow> 'r call list \<Rightarrow> 's \<times> 'r call list" where
  "stage_rows db [] session trace = (session, trace)"
| "stage_rows db (record # rest) session trace =
     (case add db session record of
        (True, session') \<Rightarrow>
          stage_rows db rest (rollback db session') (trace @ [Add record True, Rollback])
      | (False, session') \<Rightarrow>
          stage_rows db rest session' (trace @ [Add record False]))"

record ('s, 'r) saved =
  raised :: "exn option"
  final :: 's
  calls :: "'r call list"

definition save_to_db :: "('s, 'r) orm \<Rightarrow> 's \<Rightarrow> 'r list \<Rightarrow> ('s, 'r) saved" where
  "save_to_db db session df =
     (case stage_rows db df session [] of
        (session', trace) \<Rightarrow>
          (case commit db session' of
             (e, session'') \<Rightarrow> \<lparr>raised = e, final = session'', calls = trace @ [Commit]\<rparr>))"

section \<open>Row Normalizer\<close>

text \<open>The six column names of a bulletin table and the word that marks a summary row
  (Cyrillic, by code points).\<close>

definition CODE_COL :: ustr where
  "CODE_COL =
     [1050, 1086, 1076, 32, 1048, 1085, 1089, 1090, 1088, 1091, 1084, 1077, 1085, 1090, 1072]"

definition NAME_COL :: ustr where
  "NAME_COL =
     [1053, 1072, 1080, 1084, 1077, 1085, 1086, 1074, 1072, 1085, 1080, 1077, 32, 1048, 1085,
      1089, 1090, 1088, 1091, 1084, 1077, 1085, 1090, 1072]"

definition BASIS_COL :: ustr where
  "BASIS_COL =
     [1041, 1072, 1079, 1080, 1089, 32, 1087, 1086, 1089, 1090, 1072, 1074, 1082, 1080]"

definition VOLUME_COL :: ustr where
  "VOLUME_COL =
     [1054, 1073, 1098, 1077, 1084, 32, 1044, 1086, 1075, 1086, 1074, 1086, 1088, 1086, 1074,
      32, 1074, 32, 1077, 1076, 1080, 1085, 1080, 1094, 1072, 1093, 32, 1080, 1079, 1084,
      1077, 1088, 1077, 1085, 1080, 1103]"

definition TOTAL_COL :: ustr where
  "TOTAL_COL =
     [1054, 1073, 1100, 1077, 1084, 32, 1044, 1086, 1075, 1086, 1074, 1086, 1088, 1086, 1074,
      44, 32, 1088, 1091, 1073, 46]"

definition COUNT_COL :: ustr where
  "COUNT_COL =
     [1050, 1086, 1083, 1080, 1095, 1077, 1089, 1090, 1074, 1086, 32, 1044, 1086, 1075, 1086,
      1074, 1086, 1088, 1086, 1074, 44, 32, 1096, 1090, 46]"

definition TOTAL_WORD :: ustr where
  "TOTAL_WORD = [1048, 1090, 1086, 1075, 1086]"

definition expected_columns :: "ustr list" where
  "expected_columns = [CODE_COL, NAME_COL, BASIS_COL, VOLUME_COL, TOTAL_COL, COUNT_COL]"

definition output_columns :: "ustr list" where
  "output_columns =
     [u ''exchange_product_id'', u ''exchange_product_name'', u ''oil_id'',
      u ''delivery_basis_id'', u ''delivery_basis_name'', u ''delivery_type_id'', u ''volume'',
      u ''total'', u ''count'', u ''date'', u ''created_on'', u ''updated_on'']"

subsection \<open>Operations on frames\<close>

text \<open>
  \<open>df[c]\<close> where the source goes on to use it as a Series. A label that no column
  carries raises KeyError. A label that several columns carry selects a frame, which has
  no \<open>.str\<close> accessor: AttributeError. The three masks read columns that the function
  has just set; there the label is carried by several columns only when the table came
  with several, and the model takes the same exception.
\<close>

definition getitem :: "frame \<Rightarrow> ustr \<Rightarrow> exn + series" where
  "getitem df c =
     (case filter (\<lambda>p. fst p = c) (cols df) of
        [] \<Rightarrow> Inl KeyError
      | [p] \<Rightarrow> Inr (snd p)
      | _ \<Rightarrow> Inl AttributeError)"

text \<open>\<open>df[c] = s\<close>: every column labelled \<open>c\<close> is replaced; without one, a column is
  appended.\<close>

definition setitem :: "frame \<Rightarrow> ustr \<Rightarrow> series \<Rightarrow> frame" where
  "setitem df c s =
     (if c \<in> set (columns df)
      then df\<lparr>cols := map (\<lambda>p. if fst p = c then (c, s) else p) (cols df)\<rparr>
      else df\<lparr>cols := cols df @ [(c, s)]\<rparr>)"

text \<open>\<open>df[keep]\<close> for a boolean series \<open>keep\<close>.\<close>

definition mask_rows :: "frame \<Rightarrow> (nat \<Rightarrow> bool) \<Rightarrow> frame" where
  "mask_rows df keep = df\<lparr>index := filter keep (index df)\<rparr>"

text \<open>\<open>df.rename(columns=mapper)\<close>.\<close>

definition rename :: "frame \<Rightarrow> (ustr \<Rightarrow> ustr) \<Rightarrow> frame" where
  "rename df mapper = df\<lparr>cols := map (\<lambda>p. (mapper (fst p), snd p)) (cols df)\<rparr>"

text \<open>\<open>df[[c1, c2, ...]]\<close>: for each name in turn, the columns that carry it.\<close>

definition select :: "frame \<Rightarrow> ustr list \<Rightarrow> exn + frame" where
  "select df names =
     (if list_ex (\<lambda>c. c \<notin> set (columns df)) names then Inl KeyError
      else Inr (df\<lparr>cols := concat (map (\<lambda>c. filter (\<lambda>p. fst p = c) (cols df)) names)\<rparr>))"

definition new_names :: "ustr \<Rightarrow> ustr" where
  "new_names c =
     (if c = CODE_COL then u ''exchange_product_id''
      else if c = NAME_COL then u ''exchange_product_name''
      else if c = BASIS_COL then u ''delivery_basis_name''
      else c)"

subsection \<open>Operations on series\<close>

text \<open>
  \<open>.astype(str)\<close> on one cell of a series: a string stays; another cell is printed, or
  stays missing where the library leaves it so.
\<close>

definition astype_str :: "pylib \<Rightarrow> cell \<Rightarrow> cell" where
  "astype_str lib c =
     (case c of
        Str s \<Rightarrow> Str s
      | _ \<Rightarrow> (case series_str lib c of Some s \<Rightarrow> Str s | None \<Rightarrow> Num NaN))"

text \<open>A method of the \<open>.str\<close> accessor on one cell: applied to a string, missing on a
  missing cell.\<close>

definition str_map :: "(ustr \<Rightarrow> ustr) \<Rightarrow> cell \<Rightarrow> cell" where
  "str_map f c = (case c of Str s \<Rightarrow> Str (f s) | _ \<Rightarrow> Num NaN)"

text \<open>\<open>.str.contains(sub, na=False)\<close> on one cell.\<close>

definition str_contains :: "ustr \<Rightarrow> cell \<Rightarrow> bool" where
  "str_contains sub c = (case c of Str s \<Rightarrow> contains sub s | _ \<Rightarrow> False)"

text \<open>\<open>.astype(str).str.replace(',', '').str.strip()\<close>, on one cell and on a series.\<close>

definition clean :: "pylib \<Rightarrow> cell \<Rightarrow> cell" where
  "clean lib c = str_map strip (str_map (replace_char 44 []) (astype_str lib c))"

definition str_clean :: "pylib \<Rightarrow> series \<Rightarrow> series" where
  "str_clean lib s = (\<lambda>i. clean lib (s i))"

text \<open>\<open>.fillna(0)\<close> on one value.\<close>

definition fillna0 :: "num \<Rightarrow> num" where
  "fillna0 x = (case x of NaN \<Rightarrow> Fin 0 | _ \<Rightarrow> x)"

text \<open>
  \<open>.astype(int)\<close>: a float is cut towards zero; the series raises when one of its rows
  holds an infinity or NaN.
\<close>

definition trunc :: "real \<Rightarrow> int" where
  "trunc r = (if 0 \<le> r then \<lfloor>r\<rfloor> else \<lceil>r\<rceil>)"

definition to_int64 :: "pylib \<Rightarrow> num \<Rightarrow> int" where
  "to_int64 lib x =
     (case x of
        Fin r \<Rightarrow>
          if - (2 ^ 63) \<le> trunc r \<and> trunc r < 2 ^ 63 then trunc r else cast_overflow lib r
      | _ \<Rightarrow> 0)"

definition is_finite :: "num \<Rightarrow> bool" where
  "is_finite x = (case x of Fin r \<Rightarrow> True | _ \<Rightarrow> False)"

definition astype_int :: "pylib \<Rightarrow> nat list \<Rightarrow> (nat \<Rightarrow> num) \<Rightarrow> exn + series" where
  "astype_int lib rows s =
     (if list_ex (\<lambda>i. \<not> is_finite (s i)) rows then Inl IntCastingNaNError
      else Inr (\<lambda>i. IntC (to_int64 lib (s i))))"

text \<open>\<open>x > 0\<close> on a cell of the integer column, and \<open>.notna()\<close>.\<close>

definition gt0 :: "cell \<Rightarrow> bool" where
  "gt0 c = (case c of IntC n \<Rightarrow> 0 < n | _ \<Rightarrow> False)"

definition notna :: "cell \<Rightarrow> bool" where
  "notna c = (c \<noteq> Num NaN)"

text \<open>\<open>.str[-1]\<close> on one cell: the last character; the missing value on an empty string
  and on a missing cell.\<close>

definition str_last :: "cell \<Rightarrow> cell" where
  "str_last c =
     (case c of
        Str s \<Rightarrow> if s = [] then Num NaN else Str [last s]
      | _ \<Rightarrow> Num NaN)"

definition and_then :: "exn + 'a \<Rightarrow> ('a \<Rightarrow> exn + 'b) \<Rightarrow> exn + 'b" where
  "and_then r f = (case r of Inl e \<Rightarrow> Inl e | Inr x \<Rightarrow> f x)"

subsection \<open>The statements of \<open>process_dataframe\<close>\<close>

text \<open>
  Frames are objects: the caller and the function hold references into a heap. The body
  of \<open>process_dataframe\<close> is a sequence of two kinds of statement on its variable \<open>df\<close>:
  \<open>df = e(df)\<close> binds \<open>df\<close> to a new object (\<open>Rebind\<close>: \<open>copy\<close>, boolean indexing, \<open>rename\<close>,
  column selection), and \<open>df[c] = e(df)\<close> changes the object that \<open>df\<close> refers to
  (\<open>SetItem\<close>). The right-hand side is evaluated first and may raise.
\<close>

datatype stmt = Rebind "frame \<Rightarrow> exn + frame" | SetItem ustr "frame \<Rightarrow> exn + series"

type_synonym heap = "frame list"

fun exec :: "stmt list \<Rightarrow> heap \<Rightarrow> nat \<Rightarrow> heap \<times> (exn + nat)" where
  "exec [] h df = (h, Inr df)"
| "exec (Rebind e # rest) h df =
     (case e (h ! df) of
        Inl x \<Rightarrow> (h, Inl x)
      | Inr new \<Rightarrow> exec rest (h @ [new]) (length h))"
| "exec (SetItem c e # rest) h df =
     (case e (h ! df) of
        Inl x \<Rightarrow> (h, Inl x)
      | Inr s \<Rightarrow> exec rest (h[df := setitem (h ! df) c s]) df)"

text \<open>Lines 99 to 131 of the source, one statement each; \<open>now\<close> is \<open>datetime.now()\<close>.\<close>

definition normalize_steps :: "pylib \<Rightarrow> timestamp \<Rightarrow> timestamp \<Rightarrow> stmt list" where
  "normalize_steps lib now trade_date =
     [Rebind (\<lambda>df. Inr df),
      SetItem COUNT_COL (\<lambda>df. and_then (getitem df COUNT_COL) (\<lambda>s. Inr (str_clean lib s))),
      SetItem VOLUME_COL (\<lambda>df. and_then (getitem df VOLUME_COL) (\<lambda>s. Inr (str_clean lib s))),
      SetItem TOTAL_COL (\<lambda>df. and_then (getitem df TOTAL_COL) (\<lambda>s. Inr (str_clean lib s))),
      SetItem (u ''count'') (\<lambda>df. and_then (getitem df COUNT_COL)
        (\<lambda>s. astype_int lib (index df) (\<lambda>i. fillna0 (to_numeric lib (s i))))),
      SetItem (u ''volume'') (\<lambda>df. and_then (getitem df VOLUME_COL)
        (\<lambda>s. Inr (\<lambda>i. Num (to_numeric lib (s i))))),
      SetItem (u ''total'') (\<lambda>df. and_then (getitem df TOTAL_COL)
        (\<lambda>s. Inr (\<lambda>i. Num (to_numeric lib (s i))))),
      Rebind (\<lambda>df. and_then (getitem df (u ''count''))
        (\<lambda>s. Inr (mask_rows df (\<lambda>i. gt0 (s i))))),
      Rebind (\<lambda>df. and_then (getitem df (u ''volume''))
        (\<lambda>s. Inr (mask_rows df (\<lambda>i. notna (s i))))),
      Rebind (\<lambda>df. and_then (getitem df (u ''total''))
        (\<lambda>s. Inr (mask_rows df (\<lambda>i. notna (s i))))),
      Rebind (\<lambda>df. and_then (getitem df CODE_COL)
        (\<lambda>s. Inr (mask_rows df (\<lambda>i. \<not> str_contains TOTAL_WORD (astype_str lib (s i)))))),
      Rebind (\<lambda>df. Inr (rename df new_names)),
      SetItem (u ''oil_id'') (\<lambda>df. and_then (getitem df (u ''exchange_product_id''))
        (\<lambda>s. Inr (\<lambda>i. str_map (take 4) (astype_str lib (s i))))),
      SetItem (u ''delivery_basis_id'') (\<lambda>df. and_then (getitem df (u ''exchange_product_id''))
        (\<lambda>s. Inr (\<lambda>i. str_map (\<lambda>t. take 3 (drop 4 t)) (astype_str lib (s i))))),
      SetItem (u ''delivery_type_id'') (\<lambda>df. and_then (getitem df (u ''exchange_product_id''))
        (\<lambda>s. Inr (\<lambda>i. str_last (astype_str lib (s i))))),
      SetItem (u ''date'') (\<lambda>df. Inr (\<lambda>i. Time (trade_date\<lparr>tzinfo := None\<rparr>))),
      SetItem (u ''created_on'') (\<lambda>df. Inr (\<lambda>i. Time now)),
      SetItem (u ''updated_on'') (\<lambda>df. Inr (\<lambda>i. Time now)),
      Rebind (\<lambda>df. select df output_columns)]"

text \<open>
  \<open>process_dataframe\<close> gets the heap and the reference \<open>df\<close> of its argument, and gives
  back the heap with what it returned: a reference to the record batch, None, or the
  exception it raised.
\<close>

definition process_dataframe ::
  "pylib \<Rightarrow> timestamp \<Rightarrow> heap \<Rightarrow> nat \<Rightarrow> timestamp \<Rightarrow> heap \<times> (exn + nat option)" where
  "process_dataframe lib now h df trade_date =
     (if list_ex (\<lambda>col. col \<notin> set (columns (h ! df))) expected_columns then (h, Inr None)
      else
        (case exec (normalize_steps lib now trade_date) h df of
           (h', Inl e) \<Rightarrow> (h', Inl e)
         | (h', Inr result) \<Rightarrow> (h', Inr (Some result))))"

subsection \<open>Reading a frame\<close>

text \<open>The value that a list of statements leaves in \<open>df\<close>, started on a frame.\<close>

fun run :: "stmt list \<Rightarrow> frame \<Rightarrow> exn + frame" where
  "run [] df = Inr df"
| "run (Rebind e # rest) df = and_then (e df) (run rest)"
| "run (SetItem c e # rest) df = and_then (e df) (\<lambda>s. run rest (setitem df c s))"

text \<open>The series held by the columns labelled \<open>c\<close>, and the cell of row \<open>i\<close> in the one
  column labelled \<open>c\<close>.\<close>

definition labelled :: "frame \<Rightarrow> ustr \<Rightarrow> series set" where
  "labelled df c = {s. (c, s) \<in> set (cols df)}"

definition cell :: "frame \<Rightarrow> ustr \<Rightarrow> nat \<Rightarrow> cell" where
  "cell df c i = (case getitem df c of Inr s \<Rightarrow> s i | Inl e \<Rightarrow> Num NaN)"

text \<open>
  The words of the specification, on row \<open>i\<close> of an input table: the numeric coercion of
  the volume, total or count cell; the coerced contract count, where a blank or failed
  coercion becomes 0; a count that coerces to an infinity; the instrument code as text;
  and the rows to drop.
\<close>

definition coerced :: "pylib \<Rightarrow> frame \<Rightarrow> ustr \<Rightarrow> nat \<Rightarrow> num" where
  "coerced lib df c i = to_numeric lib (clean lib (cell df c i))"

definition coerced_count :: "pylib \<Rightarrow> frame \<Rightarrow> nat \<Rightarrow> int" where
  "coerced_count lib df i =
     (case coerced lib df COUNT_COL i of NaN \<Rightarrow> 0 | x \<Rightarrow> to_int64 lib x)"

definition infinite_count :: "pylib \<Rightarrow> frame \<Rightarrow> nat \<Rightarrow> bool" where
  "infinite_count lib df i =
     (coerced lib df COUNT_COL i = PInf \<or> coerced lib df COUNT_COL i = NInf)"

text \<open>The text of a cell as \<open>astype(str)\<close> gives it: the string itself, the text the
  library prints, or None where the library leaves the cell missing.\<close>

definition id_text :: "pylib \<Rightarrow> cell \<Rightarrow> ustr option" where
  "id_text lib c = (case c of Str s \<Rightarrow> Some s | _ \<Rightarrow> series_str lib c)"

definition instrument_code :: "pylib \<Rightarrow> frame \<Rightarrow> nat \<Rightarrow> ustr option" where
  "instrument_code lib df i = id_text lib (cell df CODE_COL i)"

definition dropped :: "pylib \<Rightarrow> frame \<Rightarrow> nat \<Rightarrow> bool" where
  "dropped lib df i =
     (coerced_count lib df i \<le> 0 \<or> coerced lib df VOLUME_COL i = NaN
      \<or> coerced lib df TOTAL_COL i = NaN
      \<or> (case instrument_code lib df i of Some s \<Rightarrow> contains TOTAL_WORD s | None \<Rightarrow> False))"

text \<open>The exchange product id of record \<open>i\<close> of an output batch, as text (empty when
  it is missing).\<close>

definition product_code :: "pylib \<Rightarrow> frame \<Rightarrow> nat \<Rightarrow> ustr" where
  "product_code lib df i =
     (case id_text lib (cell df (u ''exchange_product_id'') i) of Some s \<Rightarrow> s | None \<Rightarrow> [])"

section \<open>Sample library and inputs\<close>

text \<open>
  A concrete instance of the library parameters, for evaluating the functions on
  concrete inputs: ASCII digits, bytes decoded one code point each, a parser of
  listing pages that knows two pages by their text, a workbook reader that knows one
  file, and a numeric coercion that reads decimal integer literals and the text "inf"
  (where it agrees with \<open>pd.to_numeric\<close>) and takes anything else as not a number.
\<close>

definition sample_to_numeric :: "cell \<Rightarrow> num" where
  "sample_to_numeric c =
     (case c of
        Str s \<Rightarrow>
          if s = u ''inf'' then PInf
          else if s \<noteq> [] \<and> list_all (\<lambda>c. 48 \<le> c \<and> c \<le> 57) s
          then Fin (of_nat (foldl (\<lambda>a c. 10 * a + (c - 48)) 0 s))
          else if 1 < length s \<and> hd s = 45 \<and> list_all (\<lambda>c. 48 \<le> c \<and> c \<le> 57) (tl s)
          then Fin (- of_nat (foldl (\<lambda>a c. 10 * a + (c - 48)) 0 (tl s)))
          else NaN
      | _ \<Rightarrow> NaN)"

text \<open>A sheet of one cell, without the marker phrase.\<close>

definition plain_sheet :: sheet where
  "plain_sheet = \<lparr>nrows = 1, ncols = 1, cell_at = (\<lambda>i j. Str (u ''Bulletin''))\<rparr>"

definition sample_lib :: pylib where
  "sample_lib =
     \<lparr>digit = (\<lambda>c. if 48 \<le> c \<and> c \<le> 57 then Some (c - 48) else None),
      decode = Inr,
      find_anchors = (\<lambda>html.
        if html = u ''page-1'' then
          [\<lparr>href = u ''/files/oil_20240501.xls'', link_text = BULLETIN_TITLE,
            next_span = Some (u '' 01.05.2024 '')\<rparr>]
        else if html = u ''page-bad'' then
          [\<lparr>href = u ''/files/oil_20220231.xls'', link_text = BULLETIN_TITLE,
            next_span = Some (u ''31.02.2022'')\<rparr>]
        else []),
      read_excel = (\<lambda>content. if content = [208, 207, 17, 224] then Some [plain_sheet] else None),
      py_str = (\<lambda>_. u ''nan''),
      series_str = (\<lambda>_. None),
      to_numeric = sample_to_numeric,
      cast_overflow = (\<lambda>_. 0)\<rparr>"

text \<open>A site whose first listing page holds one bulletin and whose other pages hold none.\<close>

definition sample_client :: client where
  "sample_client url =
     Inr \<lparr>status = 200, body = (if url = RESULTS_URL then u ''page-1'' else [])\<rparr>"

text \<open>A site whose first listing page holds a bulletin dated 31.02.2022.\<close>

definition bad_date_client :: client where
  "bad_date_client url =
     Inr \<lparr>status = 200, body = (if url = RESULTS_URL then u ''page-bad'' else [])\<rparr>"

text \<open>A site that answers every request with status 404 and an error page.\<close>

definition not_found_client :: client where
  "not_found_client url = Inr \<lparr>status = 404, body = u ''<html>Not Found</html>''\<rparr>"

text \<open>A site that serves a workbook without the marker, and one that serves no workbook.\<close>

definition workbook_client :: client where
  "workbook_client url = Inr \<lparr>status = 200, body = [208, 207, 17, 224]\<rparr>"

definition garbage_client :: client where
  "garbage_client url = Inr \<lparr>status = 200, body = [0, 1, 2]\<rparr>"

text \<open>
  A session that works as SQLAlchemy's does: \<open>add\<close> only stages the record and raises
  nothing; \<open>commit\<close> flushes the staged records, and when one of them violates a
  constraint of the table it raises IntegrityError and the transaction is rolled back;
  \<open>rollback\<close> discards what is staged.
\<close>

record 'r store =
  pending :: "'r list"
  stored :: "'r list"

definition flushing_session :: "('r \<Rightarrow> bool) \<Rightarrow> ('r store, 'r) orm" where
  "flushing_session violates =
     \<lparr>add = (\<lambda>s r. (False, s\<lparr>pending := pending s @ [r]\<rparr>)),
      rollback = (\<lambda>s. s\<lparr>pending := []\<rparr>),
      commit = (\<lambda>s.
        if list_ex violates (pending s) then (Some IntegrityError, s\<lparr>pending := []\<rparr>)
        else (None, \<lparr>pending = [], stored = stored s @ pending s\<rparr>))\<rparr>"

text \<open>
  A table of two rows: a trade of instrument A100 with volume -5, and a summary row.
\<close>

definition sample_table :: frame where
  "sample_table =
     \<lparr>index = [0, 1],
      cols = [(CODE_COL, \<lambda>i. Str ([u ''A100'', TOTAL_WORD @ u '':''] ! i)),
              (NAME_COL, \<lambda>i. Str (u ''Fuel'')),
              (BASIS_COL, \<lambda>i. Str (u ''Depot'')),
              (VOLUME_COL, \<lambda>i. Str ([u ''-5'', u ''1,200''] ! i)),
              (TOTAL_COL, \<lambda>i. Str (u '' 10 '')),
              (COUNT_COL, \<lambda>i. Str (u ''1''))]\<rparr>"


text \<open>A table of five rows with the contract counts "3", blank, "abc", "0" and "-2".\<close>

definition counts_table :: frame where
  "counts_table =
     \<lparr>index = [0, 1, 2, 3, 4],
      cols = [(CODE_COL, \<lambda>i. Str (u ''A100'')),
              (NAME_COL, \<lambda>i. Str (u ''Fuel'')),
              (BASIS_COL, \<lambda>i. Str (u ''Depot'')),
              (VOLUME_COL, \<lambda>i. Str (u ''5'')),
              (TOTAL_COL, \<lambda>i. Str (u ''10'')),
              (COUNT_COL, \<lambda>i. Str ([u ''3'', [], u ''abc'', u ''0'', u ''-2''] ! i))]\<rparr>"

text \<open>A table of two rows: one with an empty instrument code, one with a blank
  (missing) instrument code.\<close>

definition empty_code_table :: frame where
  "empty_code_table =
     \<lparr>index = [0, 1],
      cols = [(CODE_COL, \<lambda>i. [Str [], Num NaN] ! i),
              (NAME_COL, \<lambda>i. Str (u ''Fuel'')),
              (BASIS_COL, \<lambda>i. Str (u ''Depot'')),
              (VOLUME_COL, \<lambda>i. Str (u ''5'')),
              (TOTAL_COL, \<lambda>i. Str (u ''10'')),
              (COUNT_COL, \<lambda>i. Str (u ''1''))]\<rparr>"

text \<open>A table without the contract count column.\<close>

definition short_table :: frame where
  "short_table =
     \<lparr>index = [0],
      cols = [(CODE_COL, \<lambda>i. Str (u ''A100'')),
              (NAME_COL, \<lambda>i. Str (u ''Fuel'')),
              (BASIS_COL, \<lambda>i. Str (u ''Depot'')),
              (VOLUME_COL, \<lambda>i. Str (u ''5'')),
              (TOTAL_COL, \<lambda>i. Str (u ''10''))]\<rparr>"

definition sample_now :: timestamp where
  "sample_now = \<lparr>year = 2024, month = 5, day = 2, clock = 1, tzinfo = None\<rparr>"

definition sample_date :: timestamp where
  "sample_date = \<lparr>year = 2024, month = 5, day = 1, clock = 0, tzinfo = None\<rparr>"

definition sample_result :: "heap \<times> (exn + nat option)" where
  "sample_result = process_dataframe sample_lib sample_now [sample_table] 0 sample_date"

section \<open>Properties of the Bulletin Locator\<close>

lemma scan_links_inv:
  "scan_links lib links data found_new = Inr res \<Longrightarrow> length data < LIMIT_FILES \<Longrightarrow>
   \<forall>e\<in>set data. START_YEAR \<le> year (snd e) \<Longrightarrow>
   (\<forall>d. res = Returned d \<or> (\<exists>f. res = Scanned d f) \<longrightarrow>
      length d \<le> LIMIT_FILES \<and> (\<forall>e\<in>set d. START_YEAR \<le> year (snd e)))"
  by (induction lib links data found_new rule: scan_links.induct)
     (auto split: if_splits option.splits sum.splits prod.splits simp: Let_def)

lemma pages_loop_inv:
  "pages_loop lib session page_number data = Inr result \<Longrightarrow> length data \<le> LIMIT_FILES \<Longrightarrow>
   \<forall>e\<in>set data. START_YEAR \<le> year (snd e) \<Longrightarrow>
   length result \<le> LIMIT_FILES \<and> (\<forall>e\<in>set result. START_YEAR \<le> year (snd e))"
proof (induction lib session page_number data rule: pages_loop.induct)
  case (1 lib session page_number data)
  show ?case
  proof (cases "length data < LIMIT_FILES")
    case False
    with "1.prems" show ?thesis by simp
  next
    case lt: True
    from "1.prems"(1) lt obtain html
      where html: "fetch_html lib session (page_url page_number) = Inr html"
      by (cases "fetch_html lib session (page_url page_number)") simp_all
    from "1.prems"(1) lt html obtain res where
      res: "scan_links lib (find_anchors lib html) data False = Inr res"
      by (cases "scan_links lib (find_anchors lib html) data False") simp_all
    note inv = scan_links_inv [OF res lt "1.prems"(3)]
    show ?thesis
    proof (cases res)
      case (Returned d)
      with "1.prems"(1) lt html res have "result = d" by simp
      with inv Returned show ?thesis by blast
    next
      case (Scanned d f)
      show ?thesis
      proof (cases f)
        case False
        with "1.prems"(1) lt html res Scanned have "result = d" by simp
        with inv Scanned show ?thesis by blast
      next
        case True
        with "1.prems"(1) lt html res Scanned
        have rec: "pages_loop lib session (page_number + 1) d = Inr result" by simp
        from inv Scanned
        have d: "length d \<le> LIMIT_FILES" "\<forall>e\<in>set d. START_YEAR \<le> year (snd e)"
          by blast+
        from "1.IH" [OF lt html res Scanned _ rec d] True show ?thesis by simp
      qed
    qed
  qed
qed

lemmas locator_eval =
  fetch_html_def raise_for_status_def page_url_def LIMIT_FILES_def START_YEAR_def
  BULLETIN_TITLE_def u_def strip_def is_space_def match_date_def is_digit_def py_int_def
  datetime_def days_in_month_def is_leap_def RESULTS_URL_def

lemma sample_run:
  "get_bulletin_urls sample_lib sample_client =
     Inr [(BASE_URL @ u ''/files/oil_20240501.xls'',
           \<lparr>year = 2024, month = 5, day = 1, clock = 0, tzinfo = None\<rparr>)]"
  unfolding get_bulletin_urls_def
  apply (subst pages_loop.simps)
  apply (subst pages_loop.simps)
  apply (simp add: sample_client_def sample_lib_def locator_eval)
  done

text \<open>
  C2. Whatever the listing pages hold, a list that \<open>get_bulletin_urls\<close> returns has at
  most \<open>LIMIT_FILES\<close> (20) entries, and no entry has a trade date whose year is before
  \<open>START_YEAR\<close> (2023).
\<close>

theorem get_bulletin_urls_bounded:
  "get_bulletin_urls lib session = Inr data \<Longrightarrow>
     length data \<le> LIMIT_FILES \<and> (\<forall>(url, trade_date)\<in>set data. START_YEAR \<le> year trade_date)"
  using pages_loop_inv [of lib session 1 "[]" data]
  by (auto simp: get_bulletin_urls_def)

theorem get_bulletin_urls_bounded_witness:
  "get_bulletin_urls sample_lib sample_client =
     Inr [(BASE_URL @ u ''/files/oil_20240501.xls'',
           \<lparr>year = 2024, month = 5, day = 1, clock = 0, tzinfo = None\<rparr>)]
   \<and> length [(BASE_URL @ u ''/files/oil_20240501.xls'',
           \<lparr>year = 2024, month = 5, day = 1, clock = 0, tzinfo = None\<rparr>)] \<le> LIMIT_FILES
   \<and> START_YEAR \<le> year \<lparr>year = 2024, month = 5, day = 1, clock = 0, tzinfo = None\<rparr>"
  using get_bulletin_urls_bounded [OF sample_run] sample_run by simp

text \<open>
  C3. A link whose date text matches the pattern but is no calendar date: the text
  "31.02.2022" on the first listing page. The \<open>datetime\<close> constructor raises ValueError,
  nothing catches it, and \<open>get_bulletin_urls\<close> raises instead of skipping the link or
  returning what it had collected.
\<close>

theorem get_bulletin_urls_invalid_date_raises:
  "get_bulletin_urls sample_lib bad_date_client = Inl ValueError"
  unfolding get_bulletin_urls_def
  apply (subst pages_loop.simps)
  apply (simp add: bad_date_client_def sample_lib_def locator_eval)
  done

section \<open>Properties of the Fetcher and the Spreadsheet Extractor\<close>

lemma fetch_html_raises:
  "session url = Inr resp \<Longrightarrow> 400 \<le> status resp \<Longrightarrow>
     fetch_html lib session url = Inl ClientResponseError"
  by (simp add: fetch_html_def raise_for_status_def)

text \<open>
  C4. A listing-page fetch that is answered with a non-success status raises; a
  bulletin-file fetch does not. On a site that answers 404 with an error page,
  \<open>fetch_html\<close> raises ClientResponseError, and \<open>download_and_parse\<close> returns None: the
  error page fails to parse as a workbook and the file is skipped without an error.
\<close>

theorem download_and_parse_ignores_status:
  "fetch_html sample_lib not_found_client (u ''https://spimex.com/files/oil.xls'')
     = Inl ClientResponseError
   \<and> download_and_parse sample_lib not_found_client (u ''https://spimex.com/files/oil.xls'')
     = Inr None"
  by (simp add: fetch_html_def raise_for_status_def download_and_parse_def
      not_found_client_def sample_lib_def u_def)

lemma scan_sheets_no_marker:
  "\<forall>data\<in>set df_dict. \<forall>i<nrows data. \<not> row_has_marker data i \<Longrightarrow>
     scan_sheets lib df_dict = Inr None"
proof (induction df_dict)
  case Nil
  then show ?case by simp
next
  case (Cons data rest)
  then have "find (row_has_marker data) [0..<nrows data] = None"
    by (simp add: find_None_iff)
  with Cons show ?case by simp
qed

text \<open>
  C5. When the request is answered, \<open>download_and_parse\<close> returns None, and raises
  nothing, for a body that \<open>read_excel\<close> cannot parse, and for a workbook none of whose
  sheets has a row with the marker phrase.
\<close>

theorem download_and_parse_absent:
  "session url = Inr resp \<Longrightarrow>
     (read_excel lib (body resp) = None
        \<longrightarrow> download_and_parse lib session url = Inr None)
   \<and> (\<forall>df_dict. read_excel lib (body resp) = Some df_dict
          \<and> (\<forall>data\<in>set df_dict. \<forall>i<nrows data. \<not> row_has_marker data i)
        \<longrightarrow> download_and_parse lib session url = Inr None)"
  by (simp add: download_and_parse_def scan_sheets_no_marker)

lemma plain_sheet_no_marker: "\<not> row_has_marker plain_sheet 0"
  by (simp add: row_has_marker_def plain_sheet_def MARKER_def u_def)

theorem download_and_parse_absent_witness:
  "read_excel sample_lib [0, 1, 2] = None
   \<and> download_and_parse sample_lib garbage_client (u ''x'') = Inr None
   \<and> read_excel sample_lib [208, 207, 17, 224] = Some [plain_sheet]
   \<and> \<not> row_has_marker plain_sheet 0
   \<and> download_and_parse sample_lib workbook_client (u ''x'') = Inr None"
proof -
  have g: "garbage_client (u ''x'') = Inr \<lparr>status = 200, body = [0, 1, 2]\<rparr>"
    by (simp add: garbage_client_def)
  have w: "workbook_client (u ''x'') = Inr \<lparr>status = 200, body = [208, 207, 17, 224]\<rparr>"
    by (simp add: workbook_client_def)
  have r0: "read_excel sample_lib [0, 1, 2] = None"
    by (simp add: sample_lib_def)
  have r1: "read_excel sample_lib [208, 207, 17, 224] = Some [plain_sheet]"
    by (simp add: sample_lib_def)
  have n: "nrows plain_sheet = 1"
    by (simp add: plain_sheet_def)
  from download_and_parse_absent [of garbage_client "u ''x''" _ sample_lib, OF g] r0
  have a: "download_and_parse sample_lib garbage_client (u ''x'') = Inr None"
    by simp
  from download_and_parse_absent [of workbook_client "u ''x''" _ sample_lib, OF w]
    r1 n plain_sheet_no_marker
  have b: "download_and_parse sample_lib workbook_client (u ''x'') = Inr None"
    by simp
  from a b r0 r1 plain_sheet_no_marker show ?thesis by simp
qed

section \<open>Properties of the Persister\<close>

text \<open>
  C1. A batch of two records, the first valid and the second in violation of a
  constraint of the table, saved through a session that stages in \<open>add\<close> and checks at
  \<open>commit\<close>. \<open>add\<close> raises nothing, so the \<open>except IntegrityError\<close> around it is never
  entered; \<open>commit\<close> raises IntegrityError outside any \<open>try\<close>, \<open>save_to_db\<close> raises, and the
  valid record is not stored either.
\<close>

theorem save_to_db_conflict_aborts:
  "save_to_db (flushing_session (\<lambda>r. r = 0)) \<lparr>pending = [], stored = []\<rparr> [1, 0 :: nat] =
     \<lparr>raised = Some IntegrityError,
      final = \<lparr>pending = [], stored = []\<rparr>,
      calls = [Add 1 False, Add 0 False, Commit]\<rparr>"
  by (simp add: save_to_db_def flushing_session_def)

section \<open>Properties of the Row Normalizer\<close>

subsection \<open>Labels\<close>

lemma labels_distinct:
  "distinct [CODE_COL, NAME_COL, BASIS_COL, VOLUME_COL, TOTAL_COL, COUNT_COL,
     u ''count'', u ''volume'', u ''total'',
     u ''exchange_product_id'', u ''exchange_product_name'', u ''delivery_basis_name'',
     u ''oil_id'', u ''delivery_basis_id'', u ''delivery_type_id'', u ''date'',
     u ''created_on'', u ''updated_on'']"
  by (simp add: CODE_COL_def NAME_COL_def BASIS_COL_def VOLUME_COL_def TOTAL_COL_def
      COUNT_COL_def u_def)

lemma labels_distinct_rev:
  "distinct (rev [CODE_COL, NAME_COL, BASIS_COL, VOLUME_COL, TOTAL_COL, COUNT_COL,
     u ''count'', u ''volume'', u ''total'',
     u ''exchange_product_id'', u ''exchange_product_name'', u ''delivery_basis_name'',
     u ''oil_id'', u ''delivery_basis_id'', u ''delivery_type_id'', u ''date'',
     u ''created_on'', u ''updated_on''])"
  using labels_distinct by (simp only: distinct_rev)

lemmas label_neq =
  labels_distinct [simplified distinct.simps list.set insert_iff empty_iff de_Morgan_disj simp_thms]
  labels_distinct_rev [simplified rev.simps append.simps distinct.simps list.set insert_iff
    empty_iff de_Morgan_disj simp_thms]

subsection \<open>Frames\<close>

lemma filter_label_map_other:
  "c \<noteq> c' \<Longrightarrow>
   filter (\<lambda>p. fst p = c') (map (\<lambda>p. if fst p = c then (c, s) else p) xs) =
   filter (\<lambda>p. fst p = c') xs"
  by (induction xs) auto

lemma getitem_setitem_other [simp]:
  "c \<noteq> c' \<Longrightarrow> getitem (setitem df c s) c' = getitem df c'"
  by (simp add: getitem_def setitem_def filter_label_map_other)

lemma labelled_setitem [simp]:
  "labelled (setitem df c s) c' = (if c = c' then {s} else labelled df c')"
  by (auto simp: labelled_def setitem_def columns_def image_iff)

lemma getitem_labelled: "getitem df c = Inr s \<Longrightarrow> labelled df c = {s}"
proof -
  assume "getitem df c = Inr s"
  then obtain p where "filter (\<lambda>p. fst p = c) (cols df) = [p]" and s: "snd p = s"
    by (auto simp: getitem_def split: list.splits)
  then have "set (filter (\<lambda>p. fst p = c) (cols df)) = {p}"
    by simp
  then have eq: "{q \<in> set (cols df). fst q = c} = {p}"
    by simp
  then have "p \<in> set (cols df)" "fst p = c"
    by blast+
  moreover have "t = s" if "(c, t) \<in> set (cols df)" for t
  proof -
    from that have "(c, t) \<in> {q \<in> set (cols df). fst q = c}" by simp
    with eq have "(c, t) = p" by simp
    with s show ?thesis by auto
  qed
  ultimately show ?thesis using s
    by (auto simp: labelled_def)
qed

lemma getitem_setitem_same: "getitem (setitem df c s) c = Inr t \<Longrightarrow> t = s"
  by (drule getitem_labelled) simp

lemma filter_label_map_same:
  "filter (\<lambda>p. fst p = c) (map (\<lambda>p. if fst p = c then (c, s) else p) xs) =
   replicate (length (filter (\<lambda>p. fst p = c) xs)) (c, s)"
  by (induction xs) auto

lemma getitem_setitem_same_iff:
  "getitem (setitem df c s) c = Inr t \<longleftrightarrow>
     t = s \<and> length (filter (\<lambda>p. fst p = c) (cols df)) \<le> 1"
proof (cases "c \<in> set (columns df)")
  case False
  then have "filter (\<lambda>p. fst p = c) (cols df) = []"
    by (auto simp: columns_def filter_empty_conv)
  with False show ?thesis
    by (auto simp: getitem_def setitem_def)
next
  case True
  then have "filter (\<lambda>p. fst p = c) (cols df) \<noteq> []"
    by (auto simp: columns_def filter_empty_conv)
  then obtain n where n: "length (filter (\<lambda>p. fst p = c) (cols df)) = Suc n"
    by (cases "filter (\<lambda>p. fst p = c) (cols df)") auto
  show ?thesis
  proof (cases n)
    case 0
    with True n show ?thesis
      by (auto simp: getitem_def setitem_def filter_label_map_same)
  next
    case (Suc m)
    with True n show ?thesis
      by (simp add: getitem_def setitem_def filter_label_map_same)
  qed
qed

lemma getitem_mask_rows [simp]: "getitem (mask_rows df keep) c = getitem df c"
  by (simp add: getitem_def mask_rows_def)

lemma labelled_mask_rows [simp]: "labelled (mask_rows df keep) c = labelled df c"
  by (simp add: labelled_def mask_rows_def)

lemma index_setitem [simp]: "index (setitem df c s) = index df"
  by (simp add: setitem_def)

lemma index_mask_rows [simp]: "index (mask_rows df keep) = filter keep (index df)"
  by (simp add: mask_rows_def)

lemma index_rename [simp]: "index (rename df mapper) = index df"
  by (simp add: rename_def)

lemma labelled_rename:
  "labelled (rename df mapper) c = (\<Union>l\<in>{l. mapper l = c}. labelled df l)"
  by (force simp: labelled_def rename_def image_iff)

lemma labelled_rename_other:
  "c \<noteq> CODE_COL \<Longrightarrow> c \<noteq> NAME_COL \<Longrightarrow> c \<noteq> BASIS_COL \<Longrightarrow>
   c \<noteq> u ''exchange_product_id'' \<Longrightarrow> c \<noteq> u ''exchange_product_name'' \<Longrightarrow>
   c \<noteq> u ''delivery_basis_name'' \<Longrightarrow>
   labelled (rename df new_names) c = labelled df c"
  by (auto simp: labelled_rename new_names_def split: if_splits)

lemma getitem_rename_other:
  "c \<noteq> CODE_COL \<Longrightarrow> c \<noteq> NAME_COL \<Longrightarrow> c \<noteq> BASIS_COL \<Longrightarrow>
   c \<noteq> u ''exchange_product_id'' \<Longrightarrow> c \<noteq> u ''exchange_product_name'' \<Longrightarrow>
   c \<noteq> u ''delivery_basis_name'' \<Longrightarrow>
   getitem (rename df new_names) c = getitem df c"
proof -
  assume c: "c \<noteq> CODE_COL" "c \<noteq> NAME_COL" "c \<noteq> BASIS_COL" "c \<noteq> u ''exchange_product_id''"
    "c \<noteq> u ''exchange_product_name''" "c \<noteq> u ''delivery_basis_name''"
  have "filter (\<lambda>p. fst p = c) (map (\<lambda>p. (new_names (fst p), snd p)) xs) =
      filter (\<lambda>p. fst p = c) xs" for xs :: "(ustr \<times> series) list"
    using c by (induction xs) (auto simp: new_names_def)
  then show ?thesis
    by (simp add: getitem_def rename_def)
qed

lemma getitem_rename_id:
  "getitem (rename df new_names) (u ''exchange_product_id'') = Inr t \<Longrightarrow>
     labelled (rename df new_names) (u ''exchange_product_id'') = {t}
     \<and> labelled df CODE_COL \<subseteq> {t}"
  by (frule getitem_labelled) (auto simp: labelled_rename new_names_def)

lemma filter_label_concat:
  "distinct names \<Longrightarrow>
   filter (\<lambda>p. fst p = c) (concat (map (\<lambda>n. filter (\<lambda>p. fst p = n) xs) names)) =
   (if c \<in> set names then filter (\<lambda>p. fst p = c) xs else [])"
proof (induction names)
  case Nil
  then show ?case by simp
next
  case (Cons n names)
  have same: "filter (\<lambda>x. fst x = n \<and> fst x = c) xs =
      (if c = n then filter (\<lambda>p. fst p = c) xs else [])"
    by (induction xs) auto
  from Cons show ?case
    by (auto simp: same)
qed

lemma select_result:
  "select df names = Inr out \<Longrightarrow>
     index out = index df \<and> (\<forall>c. labelled out c = (if c \<in> set names then labelled df c else {}))"
  by (auto simp: select_def labelled_def image_iff split: if_splits)

lemma select_getitem:
  "select df names = Inr out \<Longrightarrow> distinct names \<Longrightarrow> c \<in> set names \<Longrightarrow>
     getitem out c = getitem df c"
  by (auto simp: select_def getitem_def filter_label_concat split: if_splits)

lemma output_columns_distinct: "distinct output_columns"
  by (simp add: output_columns_def label_neq)

lemma select_output:
  assumes "select df output_columns = Inr out"
  shows "index out = index df
     \<and> (\<forall>c. labelled out c = (if c \<in> set output_columns then labelled df c else {}))
     \<and> getitem out (u ''count'') = getitem df (u ''count'')
     \<and> getitem out (u ''volume'') = getitem df (u ''volume'')
     \<and> getitem out (u ''total'') = getitem df (u ''total'')
     \<and> getitem out (u ''exchange_product_id'') = getitem df (u ''exchange_product_id'')"
  using select_result [OF assms] select_getitem [OF assms output_columns_distinct]
  by (simp add: output_columns_def)

lemma and_then_Inr: "and_then r k = Inr y \<longleftrightarrow> (\<exists>x. r = Inr x \<and> k x = Inr y)"
  by (cases r) (simp_all add: and_then_def)

lemma astype_int_Inr:
  "astype_int lib rows s = Inr t \<longleftrightarrow>
     (\<forall>i\<in>set rows. is_finite (s i)) \<and> t = (\<lambda>i. IntC (to_int64 lib (s i)))"
  by (auto simp: astype_int_def list_ex_iff)

lemma cols_mask_rows [simp]: "cols (mask_rows df keep) = cols df"
  by (simp add: mask_rows_def)

lemma filter_cols_setitem_other:
  "c \<noteq> c' \<Longrightarrow>
   filter (\<lambda>p. fst p = c') (cols (setitem df c s)) = filter (\<lambda>p. fst p = c') (cols df)"
  by (simp add: setitem_def filter_label_map_other)

lemma filter_cols_rename_other:
  "c \<noteq> CODE_COL \<Longrightarrow> c \<noteq> NAME_COL \<Longrightarrow> c \<noteq> BASIS_COL \<Longrightarrow>
   c \<noteq> u ''exchange_product_id'' \<Longrightarrow> c \<noteq> u ''exchange_product_name'' \<Longrightarrow>
   c \<noteq> u ''delivery_basis_name'' \<Longrightarrow>
   filter (\<lambda>p. fst p = c) (cols (rename df new_names)) = filter (\<lambda>p. fst p = c) (cols df)"
proof -
  assume c: "c \<noteq> CODE_COL" "c \<noteq> NAME_COL" "c \<noteq> BASIS_COL" "c \<noteq> u ''exchange_product_id''"
    "c \<noteq> u ''exchange_product_name''" "c \<noteq> u ''delivery_basis_name''"
  have "filter (\<lambda>p. fst p = c) (map (\<lambda>p. (new_names (fst p), snd p)) xs) =
      filter (\<lambda>p. fst p = c) xs" for xs :: "(ustr \<times> series) list"
    using c by (induction xs) (auto simp: new_names_def)
  then show ?thesis
    by (simp add: rename_def)
qed

lemma getitem_setitem_same_le:
  "length (filter (\<lambda>p. fst p = c) (cols df)) \<le> 1 \<Longrightarrow> getitem (setitem df c s) c = Inr s"
  by (simp add: getitem_setitem_same_iff)

lemma distinct_label_once:
  "distinct (columns df) \<Longrightarrow> length (filter (\<lambda>p. fst p = c) (cols df)) \<le> 1"
proof -
  have "distinct (map fst xs) \<Longrightarrow> length (filter (\<lambda>p. fst p = c) xs) \<le> 1"
    for xs :: "(ustr \<times> series) list"
  proof (induction xs)
    case Nil
    then show ?case by simp
  next
    case (Cons p xs)
    show ?case
    proof (cases "fst p = c")
      case True
      from Cons.prems have "fst p \<notin> fst ` set xs"
        by simp
      with True have "\<forall>q\<in>set xs. fst q \<noteq> c"
        by blast
      then have "filter (\<lambda>p. fst p = c) xs = []"
        by (simp add: filter_empty_conv)
      with True show ?thesis by simp
    next
      case False
      with Cons show ?thesis by simp
    qed
  qed
  then show "distinct (columns df) \<Longrightarrow> length (filter (\<lambda>p. fst p = c) (cols df)) \<le> 1"
    by (simp add: columns_def)
qed

lemma getitem_present:
  assumes "distinct (columns df)" and "c \<in> set (columns df)"
  shows "\<exists>s. getitem df c = Inr s"
proof -
  from assms(2) have "filter (\<lambda>p. fst p = c) (cols df) \<noteq> []"
    by (auto simp: columns_def filter_empty_conv)
  moreover note distinct_label_once [OF assms(1), of c]
  ultimately obtain p where "filter (\<lambda>p. fst p = c) (cols df) = [p]"
    by (cases "filter (\<lambda>p. fst p = c) (cols df)") auto
  then show ?thesis
    by (simp add: getitem_def)
qed

lemma getitem_rename_code:
  assumes "filter (\<lambda>p. fst p = u ''exchange_product_id'') (cols df) = []"
  shows "getitem (rename df new_names) (u ''exchange_product_id'') = getitem df CODE_COL"
proof -
  have "filter (\<lambda>p. fst p = u ''exchange_product_id'') xs = [] \<Longrightarrow>
      filter (\<lambda>p. fst p = u ''exchange_product_id'') (map (\<lambda>p. (new_names (fst p), snd p)) xs) =
      map (\<lambda>p. (new_names (fst p), snd p)) (filter (\<lambda>p. fst p = CODE_COL) xs)"
    for xs :: "(ustr \<times> series) list"
    by (induction xs) (auto simp: new_names_def label_neq split: if_splits)
  from this [OF assms] show ?thesis
    by (auto simp: getitem_def rename_def split: list.splits)
qed

lemma columns_setitem:
  "columns (setitem df c s) = (if c \<in> set (columns df) then columns df else columns df @ [c])"
proof -
  have "map fst (map (\<lambda>p. if fst p = c then (c, s) else p) xs) = map fst xs"
    for xs :: "(ustr \<times> series) list"
    by (induction xs) auto
  then show ?thesis
    by (simp add: setitem_def columns_def)
qed

lemma set_columns_setitem [simp]:
  "set (columns (setitem df c s)) = insert c (set (columns df))"
  by (auto simp: columns_setitem)

lemma set_columns_mask_rows [simp]: "set (columns (mask_rows df keep)) = set (columns df)"
  by (simp add: columns_def)

lemma set_columns_rename [simp]:
  "set (columns (rename df mapper)) = mapper ` set (columns df)"
  by (auto simp: rename_def columns_def image_iff)

lemma select_present:
  "list_all (\<lambda>c. c \<in> set (columns df)) names \<Longrightarrow> \<exists>out. select df names = Inr out"
  by (simp add: select_def list_ex_iff list_all_iff)

lemma astype_str_id_text:
  "astype_str lib c = (case id_text lib c of Some s \<Rightarrow> Str s | None \<Rightarrow> Num NaN)"
  by (simp add: astype_str_def id_text_def split: cell.splits)

lemma str_map_astype_str:
  "str_map g (astype_str lib c) =
     (case id_text lib c of Some s \<Rightarrow> Str (g s) | None \<Rightarrow> Num NaN)"
  by (simp add: astype_str_id_text str_map_def split: option.splits)

lemma str_last_astype_str:
  "str_last (astype_str lib c) =
     (case id_text lib c of
        Some s \<Rightarrow> if s = [] then Num NaN else Str [last s]
      | None \<Rightarrow> Num NaN)"
  by (simp add: astype_str_id_text str_last_def split: option.splits)

lemma str_contains_astype_str:
  "str_contains w (astype_str lib c) =
     (case id_text lib c of Some s \<Rightarrow> contains w s | None \<Rightarrow> False)"
  by (simp add: astype_str_id_text str_contains_def split: option.splits)

lemma to_int64_fillna0:
  "to_int64 lib (fillna0 x) = (case x of NaN \<Rightarrow> 0 | _ \<Rightarrow> to_int64 lib x)"
  by (cases x) (simp_all add: fillna0_def to_int64_def trunc_def)

lemma is_finite_fillna0: "is_finite (fillna0 x) \<longleftrightarrow> x \<noteq> PInf \<and> x \<noteq> NInf"
  by (cases x) (simp_all add: fillna0_def is_finite_def)

subsection \<open>The heap\<close>

lemma exec_run:
  "df < length h \<Longrightarrow> exec ss h df = (h', Inr r) \<Longrightarrow>
     r < length h' \<and> run ss (h ! df) = Inr (h' ! r)"
proof (induction ss h df rule: exec.induct)
  case (1 h df)
  then show ?case by simp
next
  case (2 e rest h df)
  then show ?case
    by (cases "e (h ! df)") (simp_all add: and_then_def)
next
  case (3 c e rest h df)
  then show ?case
    by (cases "e (h ! df)") (simp_all add: and_then_def)
qed

lemma exec_keeps:
  "n \<le> df \<Longrightarrow> df < length h \<Longrightarrow> r < n \<Longrightarrow> fst (exec ss h df) ! r = h ! r"
proof (induction ss h df rule: exec.induct)
  case (1 h df)
  then show ?case by simp
next
  case (2 e rest h df)
  then show ?case
    by (cases "e (h ! df)") (simp_all add: nth_append)
next
  case (3 c e rest h df)
  then show ?case
    by (cases "e (h ! df)") simp_all
qed

lemma exec_copy_first:
  "r < length h \<Longrightarrow> fst (exec (Rebind (\<lambda>df. Inr df) # rest) h df) ! r = h ! r"
  using exec_keeps [of "length h" "length h" "h @ [h ! df]" r rest]
  by (simp add: nth_append)

lemma normalize_steps_copy_first:
  "\<exists>rest. normalize_steps lib now trade_date = Rebind (\<lambda>df. Inr df) # rest"
  by (simp add: normalize_steps_def)

lemma process_dataframe_run:
  assumes "process_dataframe lib now h df trade_date = (h', Inr (Some out))"
    and "df < length h"
  shows "run (normalize_steps lib now trade_date) (h ! df) = Inr (h' ! out)"
proof -
  from assms(1) have "exec (normalize_steps lib now trade_date) h df = (h', Inr out)"
    by (auto simp: process_dataframe_def split: if_splits prod.splits sum.splits)
  from exec_run [OF assms(2) this] show ?thesis by simp
qed

lemma exec_total:
  "df < length h \<Longrightarrow> run ss (h ! df) = Inr g \<Longrightarrow> \<exists>h' r. exec ss h df = (h', Inr r)"
proof (induction ss h df rule: exec.induct)
  case (1 h df)
  then show ?case by simp
next
  case (2 e rest h df)
  then show ?case
    by (cases "e (h ! df)") (simp_all add: and_then_def)
next
  case (3 c e rest h df)
  then show ?case
    by (cases "e (h ! df)") (simp_all add: and_then_def)
qed

lemma exec_ref:
  "exec ss h df = (h', Inr r) \<Longrightarrow>
     length h' = length h + length (filter (\<lambda>x. case x of Rebind e \<Rightarrow> True | _ \<Rightarrow> False) ss)
     \<and> r = (if filter (\<lambda>x. case x of Rebind e \<Rightarrow> True | _ \<Rightarrow> False) ss = [] then df
            else length h' - 1)"
proof (induction ss h df rule: exec.induct)
  case (1 h df)
  then show ?case by simp
next
  case (2 e rest h df)
  then show ?case
    by (cases "e (h ! df)") auto
next
  case (3 c e rest h df)
  then show ?case
    by (cases "e (h ! df)") auto
qed

lemma process_dataframe_ref:
  assumes "process_dataframe lib now h df trade_date = (h', Inr (Some out))"
  shows "out = length h + 6"
proof -
  from assms have "exec (normalize_steps lib now trade_date) h df = (h', Inr out)"
    by (auto simp: process_dataframe_def split: if_splits prod.splits sum.splits)
  from exec_ref [OF this] show ?thesis
    by (simp add: normalize_steps_def)
qed

subsection \<open>The batch that the statements build\<close>

lemma run_normalize_steps_base:
  assumes "run (normalize_steps lib now d) f = Inr out"
  shows "\<exists>code cnt vol tot. getitem f CODE_COL = Inr code \<and> getitem f COUNT_COL = Inr cnt
     \<and> getitem f VOLUME_COL = Inr vol \<and> getitem f TOTAL_COL = Inr tot"
  using assms unfolding normalize_steps_def
  by (auto simp: and_then_Inr label_neq)

lemma run_normalize_steps_index:
  assumes "run (normalize_steps lib now d) f = Inr out"
  shows "index out = filter (\<lambda>i. \<not> dropped lib f i) (index f)"
proof -
  from run_normalize_steps_base [OF assms] obtain code cnt vol tot
    where base: "getitem f CODE_COL = Inr code" "getitem f COUNT_COL = Inr cnt"
      "getitem f VOLUME_COL = Inr vol" "getitem f TOTAL_COL = Inr tot"
    by blast
  have d: "dropped lib f i \<longleftrightarrow>
      \<not> (gt0 (IntC (to_int64 lib (fillna0 (to_numeric lib (str_clean lib cnt i)))))
        \<and> notna (Num (to_numeric lib (str_clean lib vol i)))
        \<and> notna (Num (to_numeric lib (str_clean lib tot i)))
        \<and> \<not> str_contains TOTAL_WORD (astype_str lib (code i)))" for i
    using base
    by (auto simp: dropped_def coerced_count_def coerced_def instrument_code_def cell_def
        str_clean_def gt0_def notna_def str_contains_astype_str to_int64_fillna0
        split: num.splits)
  show ?thesis
    using assms base unfolding normalize_steps_def d
    by (auto simp: and_then_Inr astype_int_Inr label_neq
        dest!: getitem_setitem_same select_output intro!: filter_cong)
qed

lemma run_normalize_steps_columns:
  assumes "run (normalize_steps lib now d) f = Inr out"
  shows "getitem out (u ''count'') = Inr (\<lambda>i. IntC (coerced_count lib f i))"
    and "getitem out (u ''volume'') = Inr (\<lambda>i. Num (coerced lib f VOLUME_COL i))"
    and "getitem out (u ''total'') = Inr (\<lambda>i. Num (coerced lib f TOTAL_COL i))"
    and "getitem out (u ''exchange_product_id'') = Inr (cell f CODE_COL)"
    and "labelled out (u ''oil_id'') =
           {\<lambda>i. case instrument_code lib f i of Some s \<Rightarrow> Str (take 4 s) | None \<Rightarrow> Num NaN}"
    and "labelled out (u ''delivery_basis_id'') =
           {\<lambda>i. case instrument_code lib f i of
                  Some s \<Rightarrow> Str (take 3 (drop 4 s)) | None \<Rightarrow> Num NaN}"
    and "labelled out (u ''delivery_type_id'') =
           {\<lambda>i. case instrument_code lib f i of
                  Some s \<Rightarrow> if s = [] then Num NaN else Str [last s] | None \<Rightarrow> Num NaN}"
    and "distinct (columns f) \<longrightarrow>
           getitem out (u ''delivery_type_id'') =
             Inr (\<lambda>i. case instrument_code lib f i of
                    Some s \<Rightarrow> if s = [] then Num NaN else Str [last s] | None \<Rightarrow> Num NaN)"
    and "distinct (columns f) \<longrightarrow>
           getitem out (u ''oil_id'') =
             Inr (\<lambda>i. case instrument_code lib f i of
                    Some s \<Rightarrow> Str (take 4 s) | None \<Rightarrow> Num NaN)"
    and "distinct (columns f) \<longrightarrow>
           getitem out (u ''delivery_basis_id'') =
             Inr (\<lambda>i. case instrument_code lib f i of
                    Some s \<Rightarrow> Str (take 3 (drop 4 s)) | None \<Rightarrow> Num NaN)"
proof -
  from run_normalize_steps_base [OF assms] obtain code cnt vol tot
    where base: "getitem f CODE_COL = Inr code" "getitem f COUNT_COL = Inr cnt"
      "getitem f VOLUME_COL = Inr vol" "getitem f TOTAL_COL = Inr tot"
    by blast
  note lab = base(1) [THEN getitem_labelled]
  have defs:
    "coerced_count lib f = (\<lambda>i. to_int64 lib (fillna0 (to_numeric lib (str_clean lib cnt i))))"
    "coerced lib f VOLUME_COL = (\<lambda>i. to_numeric lib (str_clean lib vol i))"
    "coerced lib f TOTAL_COL = (\<lambda>i. to_numeric lib (str_clean lib tot i))"
    "instrument_code lib f = (\<lambda>i. id_text lib (code i))"
    "cell f CODE_COL = code"
    using base
    by (simp_all add: coerced_count_def coerced_def instrument_code_def cell_def
        str_clean_def fun_eq_iff to_int64_fillna0 split: num.splits)
  have sel: "u ''count'' \<in> set output_columns" "u ''volume'' \<in> set output_columns"
    "u ''total'' \<in> set output_columns" "u ''exchange_product_id'' \<in> set output_columns"
    "u ''oil_id'' \<in> set output_columns" "u ''delivery_basis_id'' \<in> set output_columns"
    "u ''delivery_type_id'' \<in> set output_columns"
    by (simp_all add: output_columns_def)
  from assms base lab sel
  have "getitem out (u ''count'') =
        Inr (\<lambda>i. IntC (to_int64 lib (fillna0 (to_numeric lib (str_clean lib cnt i)))))
    \<and> getitem out (u ''volume'') = Inr (\<lambda>i. Num (to_numeric lib (str_clean lib vol i)))
    \<and> getitem out (u ''total'') = Inr (\<lambda>i. Num (to_numeric lib (str_clean lib tot i)))
    \<and> getitem out (u ''exchange_product_id'') = Inr code
    \<and> labelled out (u ''oil_id'') = {\<lambda>i. str_map (take 4) (astype_str lib (code i))}
    \<and> labelled out (u ''delivery_basis_id'') =
        {\<lambda>i. str_map (\<lambda>t. take 3 (drop 4 t)) (astype_str lib (code i))}
    \<and> labelled out (u ''delivery_type_id'') = {\<lambda>i. str_last (astype_str lib (code i))}
    \<and> (length (filter (\<lambda>p. fst p = u ''delivery_type_id'') (cols f)) \<le> 1 \<longrightarrow>
         getitem out (u ''delivery_type_id'') = Inr (\<lambda>i. str_last (astype_str lib (code i))))
    \<and> (length (filter (\<lambda>p. fst p = u ''oil_id'') (cols f)) \<le> 1 \<longrightarrow>
         getitem out (u ''oil_id'') = Inr (\<lambda>i. str_map (take 4) (astype_str lib (code i))))
    \<and> (length (filter (\<lambda>p. fst p = u ''delivery_basis_id'') (cols f)) \<le> 1 \<longrightarrow>
         getitem out (u ''delivery_basis_id'') =
           Inr (\<lambda>i. str_map (\<lambda>t. take 3 (drop 4 t)) (astype_str lib (code i))))"
    unfolding normalize_steps_def
    apply (simp add: and_then_Inr astype_int_Inr label_neq getitem_setitem_same_iff)
    apply (elim exE conjE)
    apply (frule select_getitem [OF _ output_columns_distinct, of _ _ "u ''delivery_type_id''"])
     apply (simp add: output_columns_def)
    apply (frule select_getitem [OF _ output_columns_distinct, of _ _ "u ''oil_id''"])
     apply (simp add: output_columns_def)
    apply (frule select_getitem [OF _ output_columns_distinct, of _ _ "u ''delivery_basis_id''"])
     apply (simp add: output_columns_def)
    apply (drule select_output)
    apply (frule getitem_rename_id)
    apply (elim conjE)
    apply (simp add: label_neq getitem_rename_other getitem_setitem_same_iff
        labelled_rename_other filter_cols_setitem_other filter_cols_rename_other)
    done
  with distinct_label_once [of f "u ''delivery_type_id''"] distinct_label_once [of f "u ''oil_id''"]
    distinct_label_once [of f "u ''delivery_basis_id''"]
  show "getitem out (u ''count'') = Inr (\<lambda>i. IntC (coerced_count lib f i))"
    and "getitem out (u ''volume'') = Inr (\<lambda>i. Num (coerced lib f VOLUME_COL i))"
    and "getitem out (u ''total'') = Inr (\<lambda>i. Num (coerced lib f TOTAL_COL i))"
    and "getitem out (u ''exchange_product_id'') = Inr (cell f CODE_COL)"
    and "labelled out (u ''oil_id'') =
           {\<lambda>i. case instrument_code lib f i of Some s \<Rightarrow> Str (take 4 s) | None \<Rightarrow> Num NaN}"
    and "labelled out (u ''delivery_basis_id'') =
           {\<lambda>i. case instrument_code lib f i of
                  Some s \<Rightarrow> Str (take 3 (drop 4 s)) | None \<Rightarrow> Num NaN}"
    and "labelled out (u ''delivery_type_id'') =
           {\<lambda>i. case instrument_code lib f i of
                  Some s \<Rightarrow> if s = [] then Num NaN else Str [last s] | None \<Rightarrow> Num NaN}"
    and "distinct (columns f) \<longrightarrow>
           getitem out (u ''delivery_type_id'') =
             Inr (\<lambda>i. case instrument_code lib f i of
                    Some s \<Rightarrow> if s = [] then Num NaN else Str [last s] | None \<Rightarrow> Num NaN)"
    and "distinct (columns f) \<longrightarrow>
           getitem out (u ''oil_id'') =
             Inr (\<lambda>i. case instrument_code lib f i of
                    Some s \<Rightarrow> Str (take 4 s) | None \<Rightarrow> Num NaN)"
    and "distinct (columns f) \<longrightarrow>
           getitem out (u ''delivery_basis_id'') =
             Inr (\<lambda>i. case instrument_code lib f i of
                    Some s \<Rightarrow> Str (take 3 (drop 4 s)) | None \<Rightarrow> Num NaN)"
    by (simp_all add: defs str_map_astype_str str_last_astype_str)
qed

lemma and_then_Inr_left: "and_then (Inr x) k = k x"
  by (simp add: and_then_def)

lemma select_run_present:
  "list_all (\<lambda>c. c \<in> set (columns df)) names \<Longrightarrow>
     \<exists>out. and_then (select df names) (run []) = Inr out"
  using select_present [of df names] by (auto simp: and_then_def)

lemma run_normalize_steps_total:
  assumes dist: "distinct (columns f)"
    and exp: "set expected_columns \<subseteq> set (columns f)"
    and noid: "u ''exchange_product_id'' \<notin> set (columns f)"
    and fin: "\<forall>i\<in>set (index f). \<not> infinite_count lib f i"
  shows "\<exists>out. run (normalize_steps lib now d) f = Inr out"
proof -
  from exp have mem: "CODE_COL \<in> set (columns f)" "NAME_COL \<in> set (columns f)"
    "BASIS_COL \<in> set (columns f)" "VOLUME_COL \<in> set (columns f)"
    "TOTAL_COL \<in> set (columns f)" "COUNT_COL \<in> set (columns f)"
    by (simp_all add: expected_columns_def)
  from getitem_present [OF dist mem(1)] getitem_present [OF dist mem(6)]
    getitem_present [OF dist mem(4)] getitem_present [OF dist mem(5)]
  obtain code cnt vol tot
    where base: "getitem f CODE_COL = Inr code" "getitem f COUNT_COL = Inr cnt"
      "getitem f VOLUME_COL = Inr vol" "getitem f TOTAL_COL = Inr tot"
    by blast
  note once = distinct_label_once [OF dist]
  from noid have noid': "filter (\<lambda>p. fst p = u ''exchange_product_id'') (cols f) = []"
    by (force simp: columns_def filter_empty_conv)
  from fin base(2)
  have finite: "\<forall>i\<in>set (index f). is_finite (fillna0 (to_numeric lib (str_clean lib cnt i)))"
    by (simp add: infinite_count_def coerced_def cell_def str_clean_def is_finite_fillna0)
  from mem have renamed: "u ''exchange_product_id'' \<in> new_names ` set (columns f)"
    "u ''exchange_product_name'' \<in> new_names ` set (columns f)"
    "u ''delivery_basis_name'' \<in> new_names ` set (columns f)"
    by (auto simp: image_iff new_names_def label_neq
        intro: bexI [of _ CODE_COL] bexI [of _ NAME_COL] bexI [of _ BASIS_COL])
  have same: "new_names (u ''count'') = u ''count''" "new_names (u ''volume'') = u ''volume''"
    "new_names (u ''total'') = u ''total''"
    by (simp_all add: new_names_def label_neq)
  show ?thesis
    unfolding normalize_steps_def
    using base once noid' finite
    apply (simp add: and_then_Inr_left label_neq getitem_setitem_same_le
        filter_cols_setitem_other astype_int_def list_ex_iff getitem_rename_code)
    apply (rule select_run_present)
    apply (simp add: output_columns_def renamed same)
    done
qed



lemma expected_present:
  "set expected_columns \<subseteq> set (columns f) \<Longrightarrow>
     \<not> list_ex (\<lambda>col. col \<notin> set (columns f)) expected_columns"
  by (auto simp: list_ex_iff)

lemma process_dataframe_batch:
  assumes "process_dataframe lib now h df trade_date = (h', Inr (Some out))"
    and "df < length h"
  shows "index (h' ! out) = filter (\<lambda>i. \<not> dropped lib (h ! df) i) (index (h ! df))"
    and "cell (h' ! out) (u ''count'') = (\<lambda>i. IntC (coerced_count lib (h ! df) i))"
    and "cell (h' ! out) (u ''volume'') = (\<lambda>i. Num (coerced lib (h ! df) VOLUME_COL i))"
    and "cell (h' ! out) (u ''total'') = (\<lambda>i. Num (coerced lib (h ! df) TOTAL_COL i))"
    and "cell (h' ! out) (u ''exchange_product_id'') = cell (h ! df) CODE_COL"
    and "product_code lib (h' ! out) =
           (\<lambda>i. case instrument_code lib (h ! df) i of Some s \<Rightarrow> s | None \<Rightarrow> [])"
proof -
  note r = process_dataframe_run [OF assms]
  show "index (h' ! out) = filter (\<lambda>i. \<not> dropped lib (h ! df) i) (index (h ! df))"
    by (rule run_normalize_steps_index [OF r])
  show "cell (h' ! out) (u ''count'') = (\<lambda>i. IntC (coerced_count lib (h ! df) i))"
    by (simp add: cell_def fun_eq_iff run_normalize_steps_columns(1) [OF r])
  show "cell (h' ! out) (u ''volume'') = (\<lambda>i. Num (coerced lib (h ! df) VOLUME_COL i))"
    by (simp add: cell_def fun_eq_iff run_normalize_steps_columns(2) [OF r])
  show "cell (h' ! out) (u ''total'') = (\<lambda>i. Num (coerced lib (h ! df) TOTAL_COL i))"
    by (simp add: cell_def fun_eq_iff run_normalize_steps_columns(3) [OF r])
  show id: "cell (h' ! out) (u ''exchange_product_id'') = cell (h ! df) CODE_COL"
    by (simp add: cell_def [of "h' ! out"] fun_eq_iff run_normalize_steps_columns(4) [OF r])
  show "product_code lib (h' ! out) =
          (\<lambda>i. case instrument_code lib (h ! df) i of Some s \<Rightarrow> s | None \<Rightarrow> [])"
    by (simp add: product_code_def instrument_code_def fun_eq_iff id)
qed

lemma process_dataframe_ids:
  assumes "process_dataframe lib now h df trade_date = (h', Inr (Some out))"
    and "df < length h"
    and "distinct (columns (h ! df))"
  shows "cell (h' ! out) (u ''oil_id'') =
           (\<lambda>i. case instrument_code lib (h ! df) i of
                  Some s \<Rightarrow> Str (take 4 s) | None \<Rightarrow> Num NaN)"
    and "cell (h' ! out) (u ''delivery_basis_id'') =
           (\<lambda>i. case instrument_code lib (h ! df) i of
                  Some s \<Rightarrow> Str (take 3 (drop 4 s)) | None \<Rightarrow> Num NaN)"
    and "cell (h' ! out) (u ''delivery_type_id'') =
           (\<lambda>i. case instrument_code lib (h ! df) i of
                  Some s \<Rightarrow> if s = [] then Num NaN else Str [last s] | None \<Rightarrow> Num NaN)"
  using run_normalize_steps_columns(8,9,10) [OF process_dataframe_run [OF assms(1,2)]] assms(3)
  by (simp_all add: cell_def fun_eq_iff)

lemma process_dataframe_returns:
  assumes df: "df < length h"
    and dist: "distinct (columns (h ! df))"
    and exp: "set expected_columns \<subseteq> set (columns (h ! df))"
    and noid: "u ''exchange_product_id'' \<notin> set (columns (h ! df))"
    and fin: "\<forall>i\<in>set (index (h ! df)). \<not> infinite_count lib (h ! df) i"
  shows "process_dataframe lib now h df trade_date =
           (fst (process_dataframe lib now h df trade_date), Inr (Some (length h + 6)))"
proof -
  from run_normalize_steps_total [OF dist exp noid fin]
  obtain g where "run (normalize_steps lib now trade_date) (h ! df) = Inr g"
    by blast
  from exec_total [OF df this]
  obtain h' r where e: "exec (normalize_steps lib now trade_date) h df = (h', Inr r)"
    by blast
  with expected_present [OF exp]
  have p: "process_dataframe lib now h df trade_date = (h', Inr (Some r))"
    by (simp add: process_dataframe_def)
  from process_dataframe_ref [OF p] p show ?thesis
    by simp
qed


subsection \<open>The sample tables\<close>

lemmas label_defs = CODE_COL_def NAME_COL_def BASIS_COL_def VOLUME_COL_def TOTAL_COL_def
  COUNT_COL_def u_def

lemmas series_defs = clean_def astype_str_def str_map_def id_text_def strip_def is_space_def
  replace_char_def to_int64_def trunc_def sample_lib_def sample_to_numeric_def TOTAL_WORD_def

lemmas row_defs = dropped_def coerced_count_def coerced_def instrument_code_def
  infinite_count_def cell_def getitem_def

lemma sample_table_columns:
  "distinct (columns sample_table)"
  "set expected_columns \<subseteq> set (columns sample_table)"
  "u ''exchange_product_id'' \<notin> set (columns sample_table)"
  by (simp_all add: columns_def sample_table_def expected_columns_def label_neq)

lemma counts_table_columns:
  "distinct (columns counts_table)"
  "set expected_columns \<subseteq> set (columns counts_table)"
  "u ''exchange_product_id'' \<notin> set (columns counts_table)"
  by (simp_all add: columns_def counts_table_def expected_columns_def label_neq)

lemma empty_code_table_columns:
  "distinct (columns empty_code_table)"
  "set expected_columns \<subseteq> set (columns empty_code_table)"
  "u ''exchange_product_id'' \<notin> set (columns empty_code_table)"
  by (simp_all add: columns_def empty_code_table_def expected_columns_def label_neq)


lemma sample_rows:
  "\<not> dropped sample_lib sample_table 0" "dropped sample_lib sample_table 1"
  "coerced_count sample_lib sample_table 0 = 1"
  "coerced sample_lib sample_table VOLUME_COL 0 = Fin (- 5)"
  "coerced sample_lib sample_table TOTAL_COL 0 = Fin 10"
  "instrument_code sample_lib sample_table 0 = Some (u ''A100'')"
  "\<not> infinite_count sample_lib sample_table 0"
  "\<not> infinite_count sample_lib sample_table 1"
  by (simp_all add: row_defs sample_table_def series_defs label_defs)

lemma counts_rows:
  "coerced sample_lib counts_table COUNT_COL 0 = Fin 3"
  "coerced sample_lib counts_table COUNT_COL 1 = NaN"
  "coerced sample_lib counts_table COUNT_COL 2 = NaN"
  "coerced sample_lib counts_table COUNT_COL 3 = Fin 0"
  "coerced sample_lib counts_table COUNT_COL 4 = Fin (- 2)"
  "coerced sample_lib counts_table VOLUME_COL 0 = Fin 5"
  "coerced sample_lib counts_table TOTAL_COL 0 = Fin 10"
  "instrument_code sample_lib counts_table 0 = Some (u ''A100'')"
  by (simp_all add: row_defs counts_table_def series_defs label_defs)

lemma counts_dropped:
  "\<not> dropped sample_lib counts_table 0"
  "coerced_count sample_lib counts_table 1 = 0"
  "coerced_count sample_lib counts_table 2 = 0"
  "coerced_count sample_lib counts_table 3 = 0"
  "coerced_count sample_lib counts_table 4 = - 2"
  "\<not> infinite_count sample_lib counts_table 0"
  "\<not> infinite_count sample_lib counts_table 1"
  "\<not> infinite_count sample_lib counts_table 2"
  "\<not> infinite_count sample_lib counts_table 3"
  "\<not> infinite_count sample_lib counts_table 4"
  using counts_rows
  by (simp_all add: dropped_def coerced_count_def infinite_count_def to_int64_def trunc_def
      sample_lib_def TOTAL_WORD_def u_def)

lemma empty_code_rows:
  "\<not> dropped sample_lib empty_code_table 0" "\<not> dropped sample_lib empty_code_table 1"
  "\<not> infinite_count sample_lib empty_code_table 0"
  "\<not> infinite_count sample_lib empty_code_table 1"
  "cell empty_code_table CODE_COL 0 = Str []"
  "cell empty_code_table CODE_COL 1 = Num NaN"
  "instrument_code sample_lib empty_code_table 0 = Some []"
  "instrument_code sample_lib empty_code_table 1 = None"
  by (simp_all add: row_defs empty_code_table_def series_defs label_defs)


lemma sample_result_eq:
  "process_dataframe sample_lib sample_now [sample_table] 0 sample_date =
     (fst sample_result, Inr (Some 7))"
  using process_dataframe_returns [of 0 "[sample_table]" sample_lib sample_now sample_date]
    sample_table_columns sample_rows(7,8)
  by (simp add: sample_result_def sample_table_def)

lemma sample_result_value: "snd sample_result = Inr (Some 7)"
  using arg_cong [OF sample_result_eq, of snd] by (simp add: sample_result_def)

lemma sample_batch:
  "index (fst sample_result ! 7) = [0]"
  "cell (fst sample_result ! 7) (u ''count'') 0 = IntC 1"
  "cell (fst sample_result ! 7) (u ''volume'') 0 = Num (Fin (- 5))"
  "cell (fst sample_result ! 7) (u ''total'') 0 = Num (Fin 10)"
  "product_code sample_lib (fst sample_result ! 7) 0 = u ''A100''"
  using process_dataframe_batch [OF sample_result_eq] sample_rows
  by (simp_all add: sample_table_def)

lemma sample_id:
  "cell (fst sample_result ! 7) (u ''exchange_product_id'') 0 = Str (u ''A100'')"
  using process_dataframe_batch(5) [OF sample_result_eq]
  by (simp add: cell_def getitem_def sample_table_def label_defs)

lemma counts_result_eq:
  "process_dataframe sample_lib sample_now [counts_table] 0 sample_date =
     (fst (process_dataframe sample_lib sample_now [counts_table] 0 sample_date),
      Inr (Some 7))"
  using process_dataframe_returns [of 0 "[counts_table]" sample_lib sample_now sample_date]
    counts_table_columns counts_dropped
  by (simp add: counts_table_def)

lemma empty_code_result_eq:
  "process_dataframe sample_lib sample_now [empty_code_table] 0 sample_date =
     (fst (process_dataframe sample_lib sample_now [empty_code_table] 0 sample_date),
      Inr (Some 7))"
  using process_dataframe_returns [of 0 "[empty_code_table]" sample_lib sample_now sample_date]
    empty_code_table_columns empty_code_rows
  by (simp add: empty_code_table_def)

subsection \<open>The claims\<close>




text \<open>
  C7, as the code has it. Every record of a batch that \<open>process_dataframe\<close> returns has
  an integer count greater than 0, a volume and a total that are numbers and not
  missing, and an exchange product id that does not contain the summary word. The
  sign of the volume is not checked.
\<close>

theorem process_dataframe_record_invariant:
  assumes "process_dataframe lib now h df trade_date = (h', Inr (Some out))"
    and "df < length h"
    and "i \<in> set (index (h' ! out))"
  shows "(\<exists>n. cell (h' ! out) (u ''count'') i = IntC n \<and> 0 < n)
     \<and> (\<exists>x. cell (h' ! out) (u ''volume'') i = Num x \<and> x \<noteq> NaN)
     \<and> (\<exists>x. cell (h' ! out) (u ''total'') i = Num x \<and> x \<noteq> NaN)
     \<and> \<not> contains TOTAL_WORD (product_code lib (h' ! out) i)"
proof -
  note b = process_dataframe_batch [OF assms(1,2)]
  from assms(3) b(1) have "\<not> dropped lib (h ! df) i"
    by simp
  then show ?thesis
    by (simp add: b(2,3,4,6) dropped_def TOTAL_WORD_def split: option.splits)
qed

theorem process_dataframe_record_invariant_witness:
  "process_dataframe sample_lib sample_now [sample_table] 0 sample_date =
     (fst sample_result, Inr (Some 7))
   \<and> (0::nat) < length [sample_table]
   \<and> 0 \<in> set (index (fst sample_result ! 7))
   \<and> (\<exists>n. cell (fst sample_result ! 7) (u ''count'') 0 = IntC n \<and> 0 < n)
   \<and> (\<exists>x. cell (fst sample_result ! 7) (u ''volume'') 0 = Num x \<and> x \<noteq> NaN)
   \<and> (\<exists>x. cell (fst sample_result ! 7) (u ''total'') 0 = Num x \<and> x \<noteq> NaN)
   \<and> \<not> contains TOTAL_WORD (product_code sample_lib (fst sample_result ! 7) 0)"
proof -
  have i: "0 \<in> set (index (fst sample_result ! 7))"
    by (simp add: sample_batch(1))
  from process_dataframe_record_invariant [OF sample_result_eq _ i] sample_result_eq i
  show ?thesis by simp
qed

text \<open>
  The batch made from the sample table holds a record with volume -5: the invariant
  of C7 with a volume of 0 or more does not hold.
\<close>

theorem process_dataframe_negative_volume:
  "snd (process_dataframe sample_lib sample_now [sample_table] 0 sample_date) = Inr (Some 7)
   \<and> 0 \<in> set (index (fst (process_dataframe sample_lib sample_now [sample_table] 0
                              sample_date) ! 7))
   \<and> cell (fst (process_dataframe sample_lib sample_now [sample_table] 0 sample_date) ! 7)
        (u ''volume'') 0 = Num (Fin (- 5))
   \<and> \<not> (0::real) \<le> - 5"
  using sample_result_value sample_batch(1,3) by (simp add: sample_result_def)

text \<open>
  C8, as the code has it. In a batch that \<open>process_dataframe\<close> returns, take a record
  whose exchange product id is the text \<open>s\<close>: \<open>oil_id\<close> holds the first four characters of
  \<open>s\<close>, \<open>delivery_basis_id\<close> the characters at positions 4 to 6, and \<open>delivery_type_id\<close>
  the last character of \<open>s\<close>, or the missing value when \<open>s\<close> is empty. An id that is not
  text is sliced as the text that \<open>astype(str)\<close> makes of it, and where \<open>astype(str)\<close>
  leaves it missing all three columns hold the missing value. For the id "A100" the
  three are "A100", "" and "0".
\<close>

theorem process_dataframe_derived_ids:
  assumes "process_dataframe lib now h df trade_date = (h', Inr (Some out))"
    and "df < length h"
  shows "(\<forall>i s. cell (h' ! out) (u ''exchange_product_id'') i = Str s \<longrightarrow>
            (\<forall>t\<in>labelled (h' ! out) (u ''oil_id''). t i = Str (take 4 s))
          \<and> (\<forall>t\<in>labelled (h' ! out) (u ''delivery_basis_id''). t i = Str (take 3 (drop 4 s)))
          \<and> (\<forall>t\<in>labelled (h' ! out) (u ''delivery_type_id'').
                t i = (if s = [] then Num NaN else Str [last s])))
     \<and> labelled (h' ! out) (u ''oil_id'') =
         {\<lambda>i. case id_text lib (cell (h' ! out) (u ''exchange_product_id'') i) of
                Some s \<Rightarrow> Str (take 4 s) | None \<Rightarrow> Num NaN}
     \<and> labelled (h' ! out) (u ''delivery_basis_id'') =
         {\<lambda>i. case id_text lib (cell (h' ! out) (u ''exchange_product_id'') i) of
                Some s \<Rightarrow> Str (take 3 (drop 4 s)) | None \<Rightarrow> Num NaN}
     \<and> labelled (h' ! out) (u ''delivery_type_id'') =
         {\<lambda>i. case id_text lib (cell (h' ! out) (u ''exchange_product_id'') i) of
                Some s \<Rightarrow> if s = [] then Num NaN else Str [last s] | None \<Rightarrow> Num NaN}
     \<and> (distinct (columns (h ! df)) \<longrightarrow>
          cell (h' ! out) (u ''oil_id'') =
            (\<lambda>i. case id_text lib (cell (h' ! out) (u ''exchange_product_id'') i) of
                   Some s \<Rightarrow> Str (take 4 s) | None \<Rightarrow> Num NaN)
        \<and> cell (h' ! out) (u ''delivery_basis_id'') =
            (\<lambda>i. case id_text lib (cell (h' ! out) (u ''exchange_product_id'') i) of
                   Some s \<Rightarrow> Str (take 3 (drop 4 s)) | None \<Rightarrow> Num NaN)
        \<and> cell (h' ! out) (u ''delivery_type_id'') =
            (\<lambda>i. case id_text lib (cell (h' ! out) (u ''exchange_product_id'') i) of
                   Some s \<Rightarrow> if s = [] then Num NaN else Str [last s] | None \<Rightarrow> Num NaN))
     \<and> take 4 (u ''A100'') = u ''A100''
     \<and> take 3 (drop 4 (u ''A100'')) = []
     \<and> [last (u ''A100'')] = u ''0''"
proof -
  note r = process_dataframe_run [OF assms]
  note id = process_dataframe_batch(5) [OF assms]
  have code: "instrument_code lib (h ! df) i =
      id_text lib (cell (h' ! out) (u ''exchange_product_id'') i)" for i
    by (simp add: instrument_code_def id)
  note sets = run_normalize_steps_columns(5,6,7) [OF r, unfolded code]
  have str: "id_text lib (Str s) = Some s" for s
    by (simp add: id_text_def)
  have a: "\<forall>i s. cell (h' ! out) (u ''exchange_product_id'') i = Str s \<longrightarrow>
            (\<forall>t\<in>labelled (h' ! out) (u ''oil_id''). t i = Str (take 4 s))
          \<and> (\<forall>t\<in>labelled (h' ! out) (u ''delivery_basis_id''). t i = Str (take 3 (drop 4 s)))
          \<and> (\<forall>t\<in>labelled (h' ! out) (u ''delivery_type_id'').
                t i = (if s = [] then Num NaN else Str [last s]))"
    unfolding sets by (simp add: str)
  have b: "distinct (columns (h ! df)) \<longrightarrow>
          cell (h' ! out) (u ''oil_id'') =
            (\<lambda>i. case id_text lib (cell (h' ! out) (u ''exchange_product_id'') i) of
                   Some s \<Rightarrow> Str (take 4 s) | None \<Rightarrow> Num NaN)
        \<and> cell (h' ! out) (u ''delivery_basis_id'') =
            (\<lambda>i. case id_text lib (cell (h' ! out) (u ''exchange_product_id'') i) of
                   Some s \<Rightarrow> Str (take 3 (drop 4 s)) | None \<Rightarrow> Num NaN)
        \<and> cell (h' ! out) (u ''delivery_type_id'') =
            (\<lambda>i. case id_text lib (cell (h' ! out) (u ''exchange_product_id'') i) of
                   Some s \<Rightarrow> if s = [] then Num NaN else Str [last s] | None \<Rightarrow> Num NaN)"
    using process_dataframe_ids [OF assms, unfolded code] by blast
  have c: "take 4 (u ''A100'') = u ''A100''" "take 3 (drop 4 (u ''A100'')) = []"
    "[last (u ''A100'')] = u ''0''"
    by (simp_all add: u_def)
  from a sets b c show ?thesis
    by (intro conjI)
qed

theorem process_dataframe_derived_ids_witness:
  "process_dataframe sample_lib sample_now [sample_table] 0 sample_date =
     (fst sample_result, Inr (Some 7))
   \<and> (0::nat) < length [sample_table]
   \<and> distinct (columns ([sample_table] ! 0))
   \<and> cell (fst sample_result ! 7) (u ''exchange_product_id'') 0 = Str (u ''A100'')
   \<and> cell (fst sample_result ! 7) (u ''oil_id'') 0 = Str (u ''A100'')
   \<and> cell (fst sample_result ! 7) (u ''delivery_basis_id'') 0 = Str []
   \<and> cell (fst sample_result ! 7) (u ''delivery_type_id'') 0 = Str (u ''0'')
   \<and> labelled (fst sample_result ! 7) (u ''oil_id'') =
       {\<lambda>i. case id_text sample_lib (cell (fst sample_result ! 7) (u ''exchange_product_id'') i)
             of Some s \<Rightarrow> Str (take 4 s) | None \<Rightarrow> Num NaN}"
proof -
  note t = process_dataframe_derived_ids [OF sample_result_eq]
  have d: "distinct (columns ([sample_table] ! 0))"
    by (simp add: sample_table_columns)
  have s: "id_text sample_lib (Str (u ''A100'')) = Some (u ''A100'')"
    by (simp add: id_text_def)
  from t d have
    "cell (fst sample_result ! 7) (u ''oil_id'') 0 =
       (case id_text sample_lib (cell (fst sample_result ! 7) (u ''exchange_product_id'') 0)
        of Some s \<Rightarrow> Str (take 4 s) | None \<Rightarrow> Num NaN)"
    "cell (fst sample_result ! 7) (u ''delivery_basis_id'') 0 =
       (case id_text sample_lib (cell (fst sample_result ! 7) (u ''exchange_product_id'') 0)
        of Some s \<Rightarrow> Str (take 3 (drop 4 s)) | None \<Rightarrow> Num NaN)"
    "cell (fst sample_result ! 7) (u ''delivery_type_id'') 0 =
       (case id_text sample_lib (cell (fst sample_result ! 7) (u ''exchange_product_id'') 0)
        of Some s \<Rightarrow> if s = [] then Num NaN else Str [last s] | None \<Rightarrow> Num NaN)"
    by simp_all
  then have "cell (fst sample_result ! 7) (u ''oil_id'') 0 = Str (u ''A100'')"
    "cell (fst sample_result ! 7) (u ''delivery_basis_id'') 0 = Str []"
    "cell (fst sample_result ! 7) (u ''delivery_type_id'') 0 = Str (u ''0'')"
    by (simp_all add: sample_id s) (simp_all add: u_def)
  with t d sample_result_eq sample_id show ?thesis
    by simp
qed

text \<open>
  A table of two rows that both reach the batch: one with the empty instrument code and
  one with a blank instrument code that \<open>astype(str)\<close> leaves missing. The delivery type
  id of the first is the missing value, not a character; the three ids of the second
  are missing values, not characters of a code.
\<close>

theorem process_dataframe_ids_missing:
  "snd (process_dataframe sample_lib sample_now [empty_code_table] 0 sample_date) =
     Inr (Some 7)
   \<and> index (fst (process_dataframe sample_lib sample_now [empty_code_table] 0 sample_date)
        ! 7) = [0, 1]
   \<and> cell (fst (process_dataframe sample_lib sample_now [empty_code_table] 0 sample_date) ! 7)
        (u ''exchange_product_id'') 0 = Str []
   \<and> cell (fst (process_dataframe sample_lib sample_now [empty_code_table] 0 sample_date) ! 7)
        (u ''delivery_type_id'') 0 = Num NaN
   \<and> cell (fst (process_dataframe sample_lib sample_now [empty_code_table] 0 sample_date) ! 7)
        (u ''exchange_product_id'') 1 = Num NaN
   \<and> cell (fst (process_dataframe sample_lib sample_now [empty_code_table] 0 sample_date) ! 7)
        (u ''oil_id'') 1 = Num NaN
   \<and> cell (fst (process_dataframe sample_lib sample_now [empty_code_table] 0 sample_date) ! 7)
        (u ''delivery_basis_id'') 1 = Num NaN
   \<and> cell (fst (process_dataframe sample_lib sample_now [empty_code_table] 0 sample_date) ! 7)
        (u ''delivery_type_id'') 1 = Num NaN"
proof -
  note p = empty_code_result_eq
  have ix: "index empty_code_table = [0, 1]"
    by (simp add: empty_code_table_def)
  have d: "distinct (columns ([empty_code_table] ! 0))"
    by (simp add: empty_code_table_columns)
  from arg_cong [OF p, of snd] process_dataframe_batch(1,5) [OF p]
    process_dataframe_ids [OF p _ d] empty_code_rows ix
  show ?thesis
    by simp
qed

text \<open>
  C9. When one of the six expected columns is not among the column names of the table,
  \<open>process_dataframe\<close> returns None: it raises nothing and the heap is as it was.
\<close>

theorem process_dataframe_missing_column:
  "col \<in> set expected_columns \<Longrightarrow> col \<notin> set (columns (h ! df)) \<Longrightarrow>
     process_dataframe lib now h df trade_date = (h, Inr None)"
  by (auto simp: process_dataframe_def list_ex_iff)

theorem process_dataframe_missing_column_witness:
  "COUNT_COL \<in> set expected_columns
   \<and> COUNT_COL \<notin> set (columns ([short_table] ! 0))
   \<and> process_dataframe sample_lib sample_now [short_table] 0 sample_date =
       ([short_table], Inr None)"
proof -
  have a: "COUNT_COL \<in> set expected_columns"
    by (simp add: expected_columns_def)
  have b: "COUNT_COL \<notin> set (columns ([short_table] ! 0))"
    by (simp add: columns_def short_table_def label_neq)
  from process_dataframe_missing_column [OF a b] a b show ?thesis by simp
qed

text \<open>
  C10. Whatever \<open>process_dataframe\<close> does (return a batch, return None or raise), every
  object that was on the heap before the call, the table passed in among them, is the
  same after it: the statements work on the copy made first and on objects made later.
\<close>

theorem process_dataframe_input_unchanged:
  "r < length h \<Longrightarrow> fst (process_dataframe lib now h df trade_date) ! r = h ! r"
proof -
  assume r: "r < length h"
  obtain rest where rest: "normalize_steps lib now trade_date = Rebind (\<lambda>df. Inr df) # rest"
    using normalize_steps_copy_first by blast
  have "fst (exec (normalize_steps lib now trade_date) h df) ! r = h ! r"
    unfolding rest by (rule exec_copy_first [OF r])
  then show ?thesis
    by (auto simp: process_dataframe_def split: prod.splits sum.splits)
qed

theorem process_dataframe_input_unchanged_witness:
  "(0::nat) < length [sample_table]
   \<and> snd (process_dataframe sample_lib sample_now [sample_table] 0 sample_date) = Inr (Some 7)
   \<and> fst (process_dataframe sample_lib sample_now [sample_table] 0 sample_date) ! 0
       = sample_table
   \<and> fst (process_dataframe sample_lib sample_now [short_table] 0 sample_date) ! 0
       = short_table"
  using process_dataframe_input_unchanged [of 0 "[sample_table]" sample_lib sample_now 0 sample_date]
    process_dataframe_input_unchanged [of 0 "[short_table]" sample_lib sample_now 0 sample_date]
    sample_result_value
  by (simp add: sample_result_def)

end
